theory Spec2Isabelle
  imports Main "HOL-Library.Word"
begin

section \<open>Values of the Terraform plugin framework\<close>

text \<open>
  An attribute value of the framework (\<open>types.String\<close>, \<open>types.Bool\<close>, \<open>types.Int32\<close>)
  is null, unknown or known. \<open>IsNull\<close> holds of the null value only; the \<open>Value...\<close>
  getters return the Go zero value for a null or unknown attribute.
\<close>

datatype 'a attr = Null | Unknown | Known 'a

type_synonym types_String = "string attr"
type_synonym types_Bool = "bool attr"
type_synonym types_Int32 = "32 word attr"

fun IsNull :: "'a attr \<Rightarrow> bool" where
  "IsNull Null = True"
| "IsNull Unknown = False"
| "IsNull (Known v) = False"

fun ValueString :: "types_String \<Rightarrow> string" where
  "ValueString (Known s) = s"
| "ValueString Null = []"
| "ValueString Unknown = []"

fun ValueBool :: "types_Bool \<Rightarrow> bool" where
  "ValueBool (Known b) = b"
| "ValueBool Null = False"
| "ValueBool Unknown = False"

fun ValueInt32 :: "types_Int32 \<Rightarrow> 32 word" where
  "ValueInt32 (Known n) = n"
| "ValueInt32 Null = 0"
| "ValueInt32 Unknown = 0"

datatype 'a types_List = ListNull | ListUnknown | ListValue "'a list"

subsection \<open>Diagnostics\<close>

text \<open>
  The framework's \<open>diag.Diagnostics\<close>: a list of error and warning diagnostics, each with
  a summary and a detail. \<open>Append\<close> skips a diagnostic the list already contains;
  \<open>AddError\<close> and \<open>AddWarning\<close> append one diagnostic; \<open>HasError\<close> looks for a
  diagnostic of error severity.
\<close>

datatype Diagnostic = ErrorDiagnostic string string | WarningDiagnostic string string

type_synonym Diagnostics = "Diagnostic list"

fun IsErrorDiagnostic :: "Diagnostic \<Rightarrow> bool" where
  "IsErrorDiagnostic (ErrorDiagnostic summary detail) = True"
| "IsErrorDiagnostic (WarningDiagnostic summary detail) = False"

fun HasError :: "Diagnostics \<Rightarrow> bool" where
  "HasError [] = False"
| "HasError (d # ds) = (if IsErrorDiagnostic d then True else HasError ds)"

fun Append :: "Diagnostics \<Rightarrow> Diagnostics \<Rightarrow> Diagnostics" where
  "Append diags [] = diags"
| "Append diags (d # ds) = (if d \<in> set diags then Append diags ds else Append (diags @ [d]) ds)"

definition AddError :: "Diagnostics \<Rightarrow> string \<Rightarrow> string \<Rightarrow> Diagnostics" where
  "AddError diags summary detail = Append diags [ErrorDiagnostic summary detail]"

definition AddWarning :: "Diagnostics \<Rightarrow> string \<Rightarrow> string \<Rightarrow> Diagnostics" where
  "AddWarning diags summary detail = Append diags [WarningDiagnostic summary detail]"

section \<open>The assignment filter resource\<close>

subsection \<open>Attribute model\<close>

text \<open>
  \<open>AssignmentFilterResourceModel\<close> as the resource declares it. The elements of
  \<open>payloads\<close> and the attributes of \<open>timeouts\<close> follow the schema of the resource.
\<close>

record Payload =
  payload_id :: types_String
  payload_type :: types_String
  group_id :: types_String
  assignment_filter_type :: types_String

record timeouts_Value =
  timeouts_create :: types_String
  timeouts_read :: types_String
  timeouts_update :: types_String
  timeouts_delete :: types_String

record AssignmentFilterResourceModel =
  ID :: types_String
  DisplayName :: types_String
  Description :: types_String
  Platform :: types_String
  Rule :: types_String
  AssignmentFilterManagementType :: types_String
  CreatedDateTime :: types_String
  LastModifiedDateTime :: types_String
  RoleScopeTags :: "types_String types_List"
  Payloads :: "Payload types_List"
  Timeouts :: timeouts_Value

subsection \<open>The Graph client and the calls a handler issues\<close>

text \<open>
  An error value returned by the Graph client, reduced to what the handlers observe of it:
  its text (\<open>err.Error()\<close>) and whether \<open>common.IsNotFoundError\<close> classifies it as
  not-found. That helper belongs to the repository but is not among its sources here, so
  its verdict is part of the error value given to a handler.
\<close>

datatype GraphError = GraphError (Error: string) (IsNotFoundError: bool)

text \<open>
  The client \<open>r.client\<close>, as the four calls on
  \<open>DeviceManagement().AssignmentFilters()\<close> that the handlers make. The type \<open>'af\<close> is
  the SDK's assignment filter model, both request body and response; a call returns an
  error, or a response that may be nil. What the remote service answers is an input of the
  handler: every theorem below holds for every client.
\<close>

record 'af GraphServiceClient =
  Post :: "'af \<Rightarrow> GraphError + 'af option"
  Get :: "string \<Rightarrow> GraphError + 'af option"
  Patch :: "string \<Rightarrow> 'af \<Rightarrow> GraphError + 'af option"
  Delete :: "string \<Rightarrow> GraphError option"

datatype 'af GraphCall =
  PostCall 'af
| GetCall string
| PatchCall string 'af
| DeleteCall string

record 'af AssignmentFilterResource =
  client :: "'af GraphServiceClient option"
  ProviderTypeName :: string
  TypeName :: string
  isCreate :: bool

subsection \<open>What the handlers call outside these sources\<close>

text \<open>
  The framework's plan and state data (\<open>tfsdk.Plan\<close>, \<open>tfsdk.State\<close>) are values of a
  type \<open>'raw\<close>; decoding them into the model (\<open>Get\<close>), encoding the model into the state
  (\<open>Set\<close>), removing the resource and reading a timeout are operations of the framework.
  \<open>constructResource\<close> and \<open>mapRemoteStateToTerraform\<close> of the assignment filter package
  and the SDK getter \<open>GetId\<close> are not among the sources either. All of them are
  parameters of the handlers, collected in one record.
\<close>

type_synonym Duration = nat

definition Second :: Duration where
  "Second = 1000000000"

record ('raw, 'af) deps =
  Plan_Get :: "'raw \<Rightarrow> AssignmentFilterResourceModel \<times> Diagnostics"
  State_Get :: "'raw \<Rightarrow> AssignmentFilterResourceModel \<times> Diagnostics"
  State_Set :: "'raw \<Rightarrow> AssignmentFilterResourceModel \<Rightarrow> 'raw \<times> Diagnostics"
  State_RemoveResource :: "'raw \<Rightarrow> 'raw"
  Timeouts_Create :: "timeouts_Value \<Rightarrow> Duration \<Rightarrow> Duration \<times> Diagnostics"
  Timeouts_Read :: "timeouts_Value \<Rightarrow> Duration \<Rightarrow> Duration \<times> Diagnostics"
  Timeouts_Update :: "timeouts_Value \<Rightarrow> Duration \<Rightarrow> Duration \<times> Diagnostics"
  Timeouts_Delete :: "timeouts_Value \<Rightarrow> Duration \<Rightarrow> Duration \<times> Diagnostics"
  constructAssignmentFilter :: "AssignmentFilterResourceModel \<Rightarrow> string + 'af"
  mapRemoteStateToTerraform ::
    "AssignmentFilterResourceModel \<Rightarrow> 'af option \<Rightarrow> AssignmentFilterResourceModel"
  GetId :: "'af \<Rightarrow> string option"

subsection \<open>Requests, responses and outcomes\<close>

record 'raw CreateRequest =
  Plan :: 'raw

record 'raw ReadRequest =
  State :: 'raw

record 'raw UpdateRequest =
  Plan :: 'raw

record 'raw DeleteRequest =
  State :: 'raw

text \<open>
  The response a handler fills in (\<open>resource.CreateResponse\<close> and its three siblings):
  the state and the diagnostics. A handler receives it and returns it updated.
\<close>

record 'raw Response =
  State :: 'raw
  Diagnostics :: Diagnostics

text \<open>
  A handler returns, with the response and the Graph calls it issued in order, or panics
  on a nil pointer, after the calls it had issued.
\<close>

datatype ('raw, 'af) Outcome =
  Returns "'raw Response" "'af GraphCall list"
| Panics "'af GraphCall list"

subsection \<open>The handlers of crud.go\<close>

definition Create ::
  "('raw, 'af) deps \<Rightarrow> 'af AssignmentFilterResource \<Rightarrow> 'raw CreateRequest \<Rightarrow>
   'raw Response \<Rightarrow> ('raw, 'af) Outcome" where
  "Create env r req resp =
    (case Plan_Get env (CreateRequest.Plan req) of (plan, ds) \<Rightarrow>
     let resp = resp\<lparr>Diagnostics := Append (Diagnostics resp) ds\<rparr> in
     if HasError (Diagnostics resp) then Returns resp []
     else
      (case Timeouts_Create env (Timeouts plan) (30 * Second) of (createTimeout, diags) \<Rightarrow>
       let resp = resp\<lparr>Diagnostics := Append (Diagnostics resp) diags\<rparr> in
       if HasError (Diagnostics resp) then Returns resp []
       else
        (case constructAssignmentFilter env plan of
           Inl err \<Rightarrow>
             Returns (resp\<lparr>Diagnostics := AddError (Diagnostics resp)
               ''Error constructing assignment filter''
               (''Could not construct resource: '' @ ProviderTypeName r @ ''_'' @ TypeName r
                  @ '': '' @ err)\<rparr>) []
         | Inr requestBody \<Rightarrow>
            (case client r of
               None \<Rightarrow> Panics []
             | Some c \<Rightarrow>
                (case Post c requestBody of
                   Inl err \<Rightarrow>
                     Returns (resp\<lparr>Diagnostics := AddError (Diagnostics resp)
                       ''Error creating assignment filter''
                       (''Could not create assignment filter: '' @ Error err)\<rparr>)
                       [PostCall requestBody]
                 | Inr None \<Rightarrow> Panics [PostCall requestBody]
                 | Inr (Some assignmentFilter) \<Rightarrow>
                    (case GetId env assignmentFilter of
                       None \<Rightarrow> Panics [PostCall requestBody]
                     | Some newId \<Rightarrow>
                        let plan = plan\<lparr>ID := Known newId\<rparr>;
                            plan = mapRemoteStateToTerraform env plan (Some assignmentFilter)
                        in (case State_Set env (Response.State resp) plan of (st, ds) \<Rightarrow>
                             Returns (resp\<lparr>Response.State := st,
                                           Diagnostics := Append (Diagnostics resp) ds\<rparr>)
                               [PostCall requestBody])))))))"

definition Read ::
  "('raw, 'af) deps \<Rightarrow> 'af AssignmentFilterResource \<Rightarrow> 'raw ReadRequest \<Rightarrow>
   'raw Response \<Rightarrow> ('raw, 'af) Outcome" where
  "Read env r req resp =
    (case State_Get env (ReadRequest.State req) of (state, ds) \<Rightarrow>
     let resp = resp\<lparr>Diagnostics := Append (Diagnostics resp) ds\<rparr> in
     if HasError (Diagnostics resp) then Returns resp []
     else if IsNull (ID state) \<or> ValueString (ID state) = [] then
       Returns (resp\<lparr>Diagnostics := AddWarning (Diagnostics resp)
         ''Unable to read assignment filter''
         ''Assignment filter ID is empty or null. Unable to read assignment filter.''\<rparr>) []
     else
      (case Timeouts_Read env (Timeouts state) (30 * Second) of (readTimeout, diags) \<Rightarrow>
       let resp = resp\<lparr>Diagnostics := Append (Diagnostics resp) diags\<rparr> in
       if HasError (Diagnostics resp) then Returns resp []
       else
        (case client r of
           None \<Rightarrow> Panics []
         | Some c \<Rightarrow>
            (case Get c (ValueString (ID state)) of
               Inl err \<Rightarrow>
                 if IsNotFoundError err then
                   Returns (resp\<lparr>Response.State := State_RemoveResource env (Response.State resp),
                     Diagnostics := AddWarning (Diagnostics resp)
                       ''Assignment filter not found''
                       (''Assignment filter with ID '' @ ValueString (ID state)
                          @ '' was not found. Removing from state.'')\<rparr>)
                     [GetCall (ValueString (ID state))]
                 else
                   Returns (resp\<lparr>Diagnostics := AddError (Diagnostics resp)
                     ''Error reading assignment filter''
                     (''Could not read assignment filter with ID '' @ ValueString (ID state)
                        @ '': '' @ Error err)\<rparr>)
                     [GetCall (ValueString (ID state))]
             | Inr assignmentFilter \<Rightarrow>
                let state' = mapRemoteStateToTerraform env state assignmentFilter
                in (case State_Set env (Response.State resp) state' of (st, ds) \<Rightarrow>
                     Returns (resp\<lparr>Response.State := st,
                                   Diagnostics := Append (Diagnostics resp) ds\<rparr>)
                       [GetCall (ValueString (ID state))])))))"

definition Update ::
  "('raw, 'af) deps \<Rightarrow> 'af AssignmentFilterResource \<Rightarrow> 'raw UpdateRequest \<Rightarrow>
   'raw Response \<Rightarrow> ('raw, 'af) Outcome" where
  "Update env r req resp =
    (case Plan_Get env (UpdateRequest.Plan req) of (data, ds) \<Rightarrow>
     let resp = resp\<lparr>Diagnostics := Append (Diagnostics resp) ds\<rparr> in
     if HasError (Diagnostics resp) then Returns resp []
     else
      (case Timeouts_Update env (Timeouts data) (30 * Second) of (updateTimeout, diags) \<Rightarrow>
       let resp = resp\<lparr>Diagnostics := Append (Diagnostics resp) diags\<rparr> in
       if HasError (Diagnostics resp) then Returns resp []
       else
        (case constructAssignmentFilter env data of
           Inl err \<Rightarrow>
             Returns (resp\<lparr>Diagnostics := AddError (Diagnostics resp)
               ''Error constructing assignment filter''
               (''Could not construct resource: '' @ ProviderTypeName r @ ''_'' @ TypeName r
                  @ '': '' @ err)\<rparr>) []
         | Inr requestBody \<Rightarrow>
            (case client r of
               None \<Rightarrow> Panics []
             | Some c \<Rightarrow>
                (case Patch c (ValueString (ID data)) requestBody of
                   Inl err \<Rightarrow>
                     if IsNotFoundError err \<and> \<not> isCreate r then
                       Returns (resp\<lparr>Response.State := State_RemoveResource env (Response.State resp),
                         Diagnostics := AddWarning (Diagnostics resp)
                           ''Resource Not Found''
                           (''The resource: '' @ ProviderTypeName r @ ''_'' @ TypeName r
                              @ '' with ID '' @ ValueString (ID data)
                              @ '' was not found and will be removed from the state.'')\<rparr>)
                         [PatchCall (ValueString (ID data)) requestBody]
                     else
                       Returns (resp\<lparr>Diagnostics := AddError (Diagnostics resp)
                         ''Error reading assignment filter''
                         (''Could not update resource: '' @ ProviderTypeName r @ ''_''
                            @ TypeName r @ '': '' @ Error err)\<rparr>)
                         [PatchCall (ValueString (ID data)) requestBody]
                 | Inr ignored \<Rightarrow>
                    (case State_Set env (Response.State resp) data of (st, ds) \<Rightarrow>
                      Returns (resp\<lparr>Response.State := st,
                                    Diagnostics := Append (Diagnostics resp) ds\<rparr>)
                        [PatchCall (ValueString (ID data)) requestBody]))))))"

definition Delete ::
  "('raw, 'af) deps \<Rightarrow> 'af AssignmentFilterResource \<Rightarrow> 'raw DeleteRequest \<Rightarrow>
   'raw Response \<Rightarrow> ('raw, 'af) Outcome" where
  "Delete env r req resp =
    (case State_Get env (DeleteRequest.State req) of (data, ds) \<Rightarrow>
     let resp = resp\<lparr>Diagnostics := Append (Diagnostics resp) ds\<rparr> in
     if HasError (Diagnostics resp) then Returns resp []
     else
      (case Timeouts_Delete env (Timeouts data) (30 * Second) of (deleteTimeout, diags) \<Rightarrow>
       let resp = resp\<lparr>Diagnostics := Append (Diagnostics resp) diags\<rparr> in
       if HasError (Diagnostics resp) then Returns resp []
       else
        (case client r of
           None \<Rightarrow> Panics []
         | Some c \<Rightarrow>
            (case GraphServiceClient.Delete c (ValueString (ID data)) of
               Some err \<Rightarrow>
                 Returns (resp\<lparr>Diagnostics := AddError (Diagnostics resp)
                   (''Client error when deleting '' @ ProviderTypeName r @ ''_'' @ TypeName r)
                   (Error err)\<rparr>)
                   [DeleteCall (ValueString (ID data))]
             | None \<Rightarrow>
                 Returns (resp\<lparr>Response.State := State_RemoveResource env (Response.State resp)\<rparr>)
                   [DeleteCall (ValueString (ID data))]))))"

subsection \<open>The handlers of the second source file of the package\<close>

text \<open>
  The source file \<open>src/unnamed/part_000\<close> declares the same resource with handlers of
  its own. They are named here after the file.
\<close>

definition Create_part_000 ::
  "('raw, 'af) deps \<Rightarrow> 'af AssignmentFilterResource \<Rightarrow> 'raw CreateRequest \<Rightarrow>
   'raw Response \<Rightarrow> ('raw, 'af) Outcome" where
  "Create_part_000 env r req resp =
    (case Plan_Get env (CreateRequest.Plan req) of (data, ds) \<Rightarrow>
     let resp = resp\<lparr>Diagnostics := Append (Diagnostics resp) ds\<rparr> in
     if HasError (Diagnostics resp) then Returns resp []
     else
      (case client r of
         None \<Rightarrow>
           Returns (resp\<lparr>Diagnostics := AddError (Diagnostics resp)
             ''Client is not initialized''
             ''Cannot create assignment filter because the client is not initialized.''\<rparr>) []
       | Some c \<Rightarrow>
          (case Timeouts_Create env (Timeouts data) (30 * Second) of (createTimeout, diags) \<Rightarrow>
           let resp = resp\<lparr>Diagnostics := Append (Diagnostics resp) diags\<rparr> in
           if HasError (Diagnostics resp) then Returns resp []
           else
            (case constructAssignmentFilter env data of
               Inl err \<Rightarrow>
                 Returns (resp\<lparr>Diagnostics := AddError (Diagnostics resp)
                   ''Error constructing assignment filter''
                   (''Could not construct resource: '' @ ProviderTypeName r @ ''_''
                      @ TypeName r @ '': '' @ err)\<rparr>) []
             | Inr requestBody \<Rightarrow>
                (case Post c requestBody of
                   Inl err \<Rightarrow>
                     Returns (resp\<lparr>Diagnostics := AddError (Diagnostics resp)
                       ''Error creating assignment filter''
                       (''Could not create assignment filter: '' @ Error err)\<rparr>)
                       [PostCall requestBody]
                 | Inr None \<Rightarrow> Panics [PostCall requestBody]
                 | Inr (Some assignmentFilter) \<Rightarrow>
                    (case GetId env assignmentFilter of
                       None \<Rightarrow> Panics [PostCall requestBody]
                     | Some newId \<Rightarrow>
                        let data = data\<lparr>ID := Known newId\<rparr>
                        in (case State_Set env (Response.State resp) data of (st, ds) \<Rightarrow>
                             Returns (resp\<lparr>Response.State := st,
                                           Diagnostics := Append (Diagnostics resp) ds\<rparr>)
                               [PostCall requestBody])))))))"

definition Read_part_000 ::
  "('raw, 'af) deps \<Rightarrow> 'af AssignmentFilterResource \<Rightarrow> 'raw ReadRequest \<Rightarrow>
   'raw Response \<Rightarrow> ('raw, 'af) Outcome" where
  "Read_part_000 env r req resp =
    (case State_Get env (ReadRequest.State req) of (data, diags) \<Rightarrow>
     let resp = resp\<lparr>Diagnostics := Append (Diagnostics resp) diags\<rparr> in
     if HasError (Diagnostics resp) then Returns resp []
     else
      (case Timeouts_Read env (Timeouts data) (30 * Second) of (readTimeout, diags) \<Rightarrow>
       let resp = resp\<lparr>Diagnostics := Append (Diagnostics resp) diags\<rparr> in
       if HasError (Diagnostics resp) then Returns resp []
       else
        (case client r of
           None \<Rightarrow> Panics []
         | Some c \<Rightarrow>
            (case Get c (ValueString (ID data)) of
               Inl err \<Rightarrow>
                 Returns (resp\<lparr>Diagnostics := AddError (Diagnostics resp)
                   ''Error reading assignment filter''
                   (''Could not read assignment filter: '' @ Error err)\<rparr>)
                   [GetCall (ValueString (ID data))]
             | Inr remoteResource \<Rightarrow>
                let data' = mapRemoteStateToTerraform env data remoteResource
                in (case State_Set env (Response.State resp) data' of (st, ds) \<Rightarrow>
                     Returns (resp\<lparr>Response.State := st,
                                   Diagnostics := Append (Diagnostics resp) ds\<rparr>)
                       [GetCall (ValueString (ID data))])))))"

definition Update_part_000 ::
  "('raw, 'af) deps \<Rightarrow> 'af AssignmentFilterResource \<Rightarrow> 'raw UpdateRequest \<Rightarrow>
   'raw Response \<Rightarrow> ('raw, 'af) Outcome" where
  "Update_part_000 env r req resp =
    (case Plan_Get env (UpdateRequest.Plan req) of (data, ds) \<Rightarrow>
     let resp = resp\<lparr>Diagnostics := Append (Diagnostics resp) ds\<rparr> in
     if HasError (Diagnostics resp) then Returns resp []
     else
      (case Timeouts_Update env (Timeouts data) (30 * Second) of (updateTimeout, diags) \<Rightarrow>
       let resp = resp\<lparr>Diagnostics := Append (Diagnostics resp) diags\<rparr> in
       if HasError (Diagnostics resp) then Returns resp []
       else
        (case constructAssignmentFilter env data of
           Inl err \<Rightarrow>
             Returns (resp\<lparr>Diagnostics := AddError (Diagnostics resp)
               ''Error constructing assignment filter''
               (''Could not construct resource: '' @ ProviderTypeName r @ ''_'' @ TypeName r
                  @ '': '' @ err)\<rparr>) []
         | Inr requestBody \<Rightarrow>
            (case client r of
               None \<Rightarrow> Panics []
             | Some c \<Rightarrow>
                (case Patch c (ValueString (ID data)) requestBody of
                   Inl err \<Rightarrow>
                     Returns (resp\<lparr>Diagnostics := AddError (Diagnostics resp)
                       ''Error updating assignment filter''
                       (''Could not update assignment filter: '' @ Error err)\<rparr>)
                       [PatchCall (ValueString (ID data)) requestBody]
                 | Inr ignored \<Rightarrow>
                    (case State_Set env (Response.State resp) data of (st, ds) \<Rightarrow>
                      Returns (resp\<lparr>Response.State := st,
                                    Diagnostics := Append (Diagnostics resp) ds\<rparr>)
                        [PatchCall (ValueString (ID data)) requestBody]))))))"

definition Delete_part_000 ::
  "('raw, 'af) deps \<Rightarrow> 'af AssignmentFilterResource \<Rightarrow> 'raw DeleteRequest \<Rightarrow>
   'raw Response \<Rightarrow> ('raw, 'af) Outcome" where
  "Delete_part_000 env r req resp =
    (case State_Get env (DeleteRequest.State req) of (data, ds) \<Rightarrow>
     let resp = resp\<lparr>Diagnostics := Append (Diagnostics resp) ds\<rparr> in
     if HasError (Diagnostics resp) then Returns resp []
     else
      (case Timeouts_Delete env (Timeouts data) (30 * Second) of (deleteTimeout, diags) \<Rightarrow>
       let resp = resp\<lparr>Diagnostics := Append (Diagnostics resp) diags\<rparr> in
       if HasError (Diagnostics resp) then Returns resp []
       else
        (case client r of
           None \<Rightarrow> Panics []
         | Some c \<Rightarrow>
            (case GraphServiceClient.Delete c (ValueString (ID data)) of
               Some err \<Rightarrow>
                 Returns (resp\<lparr>Diagnostics := AddError (Diagnostics resp)
                   (''Client error when deleting '' @ ProviderTypeName r @ ''_'' @ TypeName r)
                   (Error err)\<rparr>)
                   [DeleteCall (ValueString (ID data))]
             | None \<Rightarrow>
                 Returns (resp\<lparr>Response.State := State_RemoveResource env (Response.State resp)\<rparr>)
                   [DeleteCall (ValueString (ID data))]))))"

subsection \<open>Concrete inputs for the handlers\<close>

text \<open>
  The inputs at which the theorems below are evaluated. The framework data is the model
  itself when the resource is in the state and \<open>None\<close> when it is not; the SDK model is
  a record of the identifier, the display name and the creation time.
\<close>

record ExampleFilter =
  filter_id :: "string option"
  filter_displayName :: string
  filter_createdDateTime :: string

definition example_plan :: AssignmentFilterResourceModel where
  "example_plan =
    \<lparr>ID = Unknown, DisplayName = Known ''corp laptops'', Description = Null,
     Platform = Known ''windows10AndLater'', Rule = Known ''(device.model -ne null)'',
     AssignmentFilterManagementType = Null, CreatedDateTime = Unknown,
     LastModifiedDateTime = Unknown, RoleScopeTags = ListNull, Payloads = ListNull,
     Timeouts = \<lparr>timeouts_create = Null, timeouts_read = Null, timeouts_update = Null,
                 timeouts_delete = Null\<rparr>\<rparr>"

definition example_state :: AssignmentFilterResourceModel where
  "example_state =
    example_plan\<lparr>ID := Known ''af-1'', CreatedDateTime := Known ''2024-05-01T10:00:00Z''\<rparr>"

definition example_decode ::
  "AssignmentFilterResourceModel option \<Rightarrow> AssignmentFilterResourceModel \<times> Diagnostics" where
  "example_decode raw =
    (case raw of
       Some m \<Rightarrow> (m, [])
     | None \<Rightarrow> (example_plan, [ErrorDiagnostic ''Value Conversion Error'' ''no object'']))"

definition example_map ::
  "AssignmentFilterResourceModel \<Rightarrow> ExampleFilter option \<Rightarrow> AssignmentFilterResourceModel" where
  "example_map m remote =
    (case remote of
       None \<Rightarrow> m
     | Some f \<Rightarrow> m\<lparr>DisplayName := Known (filter_displayName f),
                     CreatedDateTime := Known (filter_createdDateTime f)\<rparr>)"

definition example_env :: "(AssignmentFilterResourceModel option, ExampleFilter) deps" where
  "example_env =
    \<lparr>Plan_Get = example_decode,
     State_Get = example_decode,
     State_Set = (\<lambda>raw m. (Some m, [])),
     State_RemoveResource = (\<lambda>raw. None),
     Timeouts_Create = (\<lambda>t d. (d, [])),
     Timeouts_Read = (\<lambda>t d. (d, [])),
     Timeouts_Update = (\<lambda>t d. (d, [])),
     Timeouts_Delete = (\<lambda>t d. (d, [])),
     constructAssignmentFilter =
       (\<lambda>m. Inr \<lparr>filter_id = None, filter_displayName = ValueString (DisplayName m),
                  filter_createdDateTime = []\<rparr>),
     mapRemoteStateToTerraform = example_map,
     GetId = filter_id\<rparr>"

definition example_env_construct_fails ::
  "(AssignmentFilterResourceModel option, ExampleFilter) deps" where
  "example_env_construct_fails =
    example_env\<lparr>constructAssignmentFilter := (\<lambda>m. Inl ''invalid platform: bogus'')\<rparr>"

text \<open>A service that holds the filter \<open>af-1\<close> and accepts every call.\<close>

definition example_client :: "ExampleFilter GraphServiceClient" where
  "example_client =
    \<lparr>Post = (\<lambda>body. Inr (Some (body\<lparr>filter_id := Some ''af-1'',
                 filter_createdDateTime := ''2024-05-01T10:00:00Z''\<rparr>))),
     Get = (\<lambda>i. Inr (Some \<lparr>filter_id = Some i, filter_displayName = ''corp laptops'',
                 filter_createdDateTime = ''2024-05-01T10:00:00Z''\<rparr>)),
     Patch = (\<lambda>i body. Inr (Some body)),
     Delete = (\<lambda>i. None)\<rparr>"

text \<open>A service on which the filter no longer exists: every call fails, classified not-found.\<close>

definition example_client_not_found :: "ExampleFilter GraphServiceClient" where
  "example_client_not_found =
    \<lparr>Post = (\<lambda>body. Inl (GraphError ''404 Not Found'' True)),
     Get = (\<lambda>i. Inl (GraphError ''404 Not Found'' True)),
     Patch = (\<lambda>i body. Inl (GraphError ''404 Not Found'' True)),
     Delete = (\<lambda>i. Some (GraphError ''404 Not Found'' True))\<rparr>"

definition example_resource ::
  "ExampleFilter GraphServiceClient \<Rightarrow> ExampleFilter AssignmentFilterResource" where
  "example_resource c =
    \<lparr>client = Some c, ProviderTypeName = ''microsoft365'',
     TypeName = ''graph_beta_device_and_app_management_assignment_filter'',
     isCreate = False\<rparr>"

section \<open>The constructor of the conditional access policy resource\<close>

subsection \<open>Results of Go functions\<close>

text \<open>
  A Go function of type \<open>(T, error)\<close> returns a value, returns an error, or panics on a
  nil pointer. An error is its text, which is all that \<open>fmt.Errorf\<close> reads of it.
\<close>

datatype 'a GoResult = Ok 'a | Err string | Panic

text \<open>
  \<open>andThen r f\<close> continues with \<open>f\<close> when \<open>r\<close> is a value and returns early otherwise.
  \<open>wrapErr\<close> is \<open>if err != nil { return nil, fmt.Errorf(prefix + "%v", err) }\<close> after a
  call of a function of this package, and \<open>parsed\<close> the same after a call of a parser of
  the SDK.
\<close>

fun andThen :: "'a GoResult \<Rightarrow> ('a \<Rightarrow> 'b GoResult) \<Rightarrow> 'b GoResult" where
  "andThen (Ok x) f = f x"
| "andThen (Err e) f = Err e"
| "andThen Panic f = Panic"

fun wrapErr :: "string \<Rightarrow> 'a GoResult \<Rightarrow> 'a GoResult" where
  "wrapErr prefix (Ok x) = Ok x"
| "wrapErr prefix (Err e) = Err (prefix @ e)"
| "wrapErr prefix Panic = Panic"

fun parsed :: "string \<Rightarrow> string + 'a \<Rightarrow> 'a GoResult" where
  "parsed prefix (Inl err) = Err (prefix @ err)"
| "parsed prefix (Inr v) = Ok v"

subsection \<open>Values of the SDK\<close>

text \<open>
  The enumerations of the Graph SDK are named integer types. Their enumerators and their
  parsers are outside the repository: the parsers are parameters of the constructor. A
  parser returns an error or a pointer, which may be nil;
  \<open>ParseConditionalAccessPolicyState\<close> returns a value of type \<open>any\<close>, which is nil, a
  pointer to a policy state, or a value of another type (given by the name of that type).
\<close>

type_synonym sdk_enum = int

datatype any = AnyNil | AnyPolicyState "sdk_enum option" | AnyOther string

subsection \<open>The attribute model\<close>

text \<open>
  The models of the conditional access policy, with the fields the constructor reads. A
  Go slice is a list: a nil slice and an empty slice are both \<open>[]\<close>, and the constructor
  tells them apart nowhere (it reads \<open>len\<close> and ranges over the slice). A pointer to a
  nested model is an option.

  The models of devices, device states, locations, platforms and authentication flows are
  only named in the source, and so are their constructors.
\<close>

typedecl ConditionalAccessDevicesModel
typedecl ConditionalAccessDeviceStatesModel
typedecl ConditionalAccessLocationsModel
typedecl ConditionalAccessPlatformsModel
typedecl ConditionalAccessAuthenticationFlowsModel

record ConditionalAccessApplicationsModel =
  IncludeApplications :: "types_String list"
  ExcludeApplications :: "types_String list"
  IncludeUserActions :: "types_String list"

record ConditionalAccessExternalTenantsModel =
  TenantIds :: "types_String list"

record ConditionalAccessGuestsOrExternalUsersModel =
  GuestOrExternalUserTypes :: types_String
  ExternalTenants :: "ConditionalAccessExternalTenantsModel option"

record ConditionalAccessUsersModel =
  IncludeUsers :: "types_String list"
  ExcludeUsers :: "types_String list"
  IncludeGroups :: "types_String list"
  ExcludeGroups :: "types_String list"
  IncludeRoles :: "types_String list"
  ExcludeRoles :: "types_String list"
  IncludeGuestsOrExternalUsers :: "ConditionalAccessGuestsOrExternalUsersModel option"
  ExcludeGuestsOrExternalUsers :: "ConditionalAccessGuestsOrExternalUsersModel option"

record ConditionalAccessClientApplicationsModel =
  IncludeServicePrincipals :: "types_String list"
  ExcludeServicePrincipals :: "types_String list"

record ConditionalAccessConditionsModel =
  Applications :: "ConditionalAccessApplicationsModel option"
  AuthenticationFlows :: "ConditionalAccessAuthenticationFlowsModel option"
  ClientApplications :: "ConditionalAccessClientApplicationsModel option"
  ClientAppTypes :: "types_String list"
  Devices :: "ConditionalAccessDevicesModel option"
  DeviceStates :: "ConditionalAccessDeviceStatesModel option"
  InsiderRiskLevels :: types_String
  Locations :: "ConditionalAccessLocationsModel option"
  Platforms :: "ConditionalAccessPlatformsModel option"
  ServicePrincipalRiskLevels :: "types_String list"
  SignInRiskLevels :: "types_String list"
  UserRiskLevels :: "types_String list"
  Users :: "ConditionalAccessUsersModel option"

record AuthenticationStrengthPolicyModel =
  DisplayName :: types_String
  Description :: types_String
  PolicyType :: types_String
  RequirementsSatisfied :: types_String
  AllowedCombinations :: "types_String list"

record ConditionalAccessGrantControlsModel =
  Operator :: types_String
  BuiltInControls :: "types_String list"
  CustomAuthenticationFactors :: "types_String list"
  TermsOfUse :: "types_String list"
  AuthenticationStrength :: "AuthenticationStrengthPolicyModel option"

record ApplicationEnforcedRestrictionsModel =
  IsEnabled :: types_Bool

record ContinuousAccessEvaluationModel =
  Mode :: types_String

record PersistentBrowserModel =
  IsEnabled :: types_Bool
  Mode :: types_String

record SignInFrequencyModel =
  IsEnabled :: types_Bool
  Type :: types_String
  Value :: types_Int32
  FrequencyInterval :: types_String
  AuthenticationType :: types_String

record SecureSignInSessionModel =
  IsEnabled :: types_Bool

record ConditionalAccessSessionControlsModel =
  ApplicationEnforcedRestrictions :: "ApplicationEnforcedRestrictionsModel option"
  ContinuousAccessEvaluation :: "ContinuousAccessEvaluationModel option"
  PersistentBrowser :: "PersistentBrowserModel option"
  SignInFrequency :: "SignInFrequencyModel option"
  SecureSignInSession :: "SecureSignInSessionModel option"
  DisableResilienceDefaults :: types_Bool

record ConditionalAccessPolicyResourceModel =
  DisplayName :: types_String
  Description :: types_String
  State :: types_String
  Conditions :: "ConditionalAccessConditionsModel option"
  GrantControls :: "ConditionalAccessGrantControlsModel option"
  SessionControls :: "ConditionalAccessSessionControlsModel option"

subsection \<open>The request model\<close>

text \<open>
  The models of the SDK that the constructor fills, each with the properties the
  constructor sets, under their names in the request body. A property is \<open>None\<close> until
  its setter is called: it is then absent from the request body.
\<close>

typedecl ConditionalAccessDevices
typedecl ConditionalAccessDeviceStates
typedecl ConditionalAccessLocations
typedecl ConditionalAccessPlatforms
typedecl ConditionalAccessAuthenticationFlows

record ConditionalAccessApplications =
  includeApplications :: "string list option"
  excludeApplications :: "string list option"
  includeUserActions :: "string list option"

record ConditionalAccessExternalTenants =
  tenantIds :: "string list option"

record ConditionalAccessGuestsOrExternalUsers =
  guestOrExternalUserTypes :: "sdk_enum option"
  externalTenants :: "ConditionalAccessExternalTenants option"

record ConditionalAccessUsers =
  includeUsers :: "string list option"
  excludeUsers :: "string list option"
  includeGroups :: "string list option"
  excludeGroups :: "string list option"
  includeRoles :: "string list option"
  excludeRoles :: "string list option"
  includeGuestsOrExternalUsers :: "ConditionalAccessGuestsOrExternalUsers option"
  excludeGuestsOrExternalUsers :: "ConditionalAccessGuestsOrExternalUsers option"

record ConditionalAccessClientApplications =
  includeServicePrincipals :: "string list option"
  excludeServicePrincipals :: "string list option"

record ConditionalAccessConditionSet =
  applications :: "ConditionalAccessApplications option"
  authenticationFlows :: "ConditionalAccessAuthenticationFlows option"
  clientApplications :: "ConditionalAccessClientApplications option"
  clientAppTypes :: "sdk_enum list option"
  devices :: "ConditionalAccessDevices option"
  deviceStates :: "ConditionalAccessDeviceStates option"
  insiderRiskLevels :: "sdk_enum option"
  locations :: "ConditionalAccessLocations option"
  platforms :: "ConditionalAccessPlatforms option"
  servicePrincipalRiskLevels :: "sdk_enum list option"
  signInRiskLevels :: "sdk_enum list option"
  userRiskLevels :: "sdk_enum list option"
  users :: "ConditionalAccessUsers option"

record AuthenticationStrengthPolicy =
  displayName :: "string option"
  description :: "string option"
  policyType :: "string option"
  requirementsSatisfied :: "string option"
  allowedCombinations :: "string list option"

record ConditionalAccessGrantControls =
  operator :: "sdk_enum option"
  builtInControls :: "sdk_enum list option"
  customAuthenticationFactors :: "string list option"
  termsOfUse :: "string list option"
  authenticationStrength :: "AuthenticationStrengthPolicy option"

record ApplicationEnforcedRestrictionsSessionControl =
  isEnabled :: "bool option"

record ContinuousAccessEvaluationSessionControl =
  mode :: "sdk_enum option"

record PersistentBrowserSessionControl =
  isEnabled :: "bool option"
  mode :: "sdk_enum option"

record SignInFrequencySessionControl =
  isEnabled :: "bool option"
  typeEscaped :: "sdk_enum option"
  signInValue :: "32 word option"
  frequencyInterval :: "sdk_enum option"
  authenticationType :: "sdk_enum option"

record SecureSignInSessionControl =
  isEnabled :: "bool option"

record ConditionalAccessSessionControls =
  applicationEnforcedRestrictions :: "ApplicationEnforcedRestrictionsSessionControl option"
  continuousAccessEvaluation :: "ContinuousAccessEvaluationSessionControl option"
  persistentBrowser :: "PersistentBrowserSessionControl option"
  signInFrequency :: "SignInFrequencySessionControl option"
  secureSignInSession :: "SecureSignInSessionControl option"
  disableResilienceDefaults :: "bool option"

record ConditionalAccessPolicy =
  displayName :: "string option"
  description :: "string option"
  state :: "sdk_enum option"
  conditions :: "ConditionalAccessConditionSet option"
  grantControls :: "ConditionalAccessGrantControls option"
  sessionControls :: "ConditionalAccessSessionControls option"

subsection \<open>What the constructor calls outside these sources\<close>

text \<open>
  The parsers of the SDK, the five constructors that the source only names, and
  \<open>json.MarshalIndent\<close>, applied to the map of the six getters of the request body (the
  six properties of \<open>ConditionalAccessPolicy\<close> above), which returns an error or the text.
\<close>

record externals =
  ParseConditionalAccessPolicyState :: "string \<Rightarrow> string + any"
  ParseConditionalAccessClientApp :: "string \<Rightarrow> string + sdk_enum option"
  ParseConditionalAccessInsiderRiskLevels :: "string \<Rightarrow> string + sdk_enum option"
  ParseRiskLevel :: "string \<Rightarrow> string + sdk_enum option"
  ParseConditionalAccessGuestOrExternalUserTypes :: "string \<Rightarrow> string + sdk_enum option"
  ParseConditionalAccessGrantControlOperator :: "string \<Rightarrow> string + sdk_enum option"
  ParseConditionalAccessGrantControl :: "string \<Rightarrow> string + sdk_enum option"
  ParseContinuousAccessEvaluationMode :: "string \<Rightarrow> string + sdk_enum option"
  ParsePersistentBrowserSessionMode :: "string \<Rightarrow> string + sdk_enum option"
  ParseSigninFrequencyType :: "string \<Rightarrow> string + sdk_enum option"
  ParseSignInFrequencyInterval :: "string \<Rightarrow> string + sdk_enum option"
  ParseSignInFrequencyAuthenticationType :: "string \<Rightarrow> string + sdk_enum option"
  constructDevices ::
    "ConditionalAccessDevicesModel option \<Rightarrow> ConditionalAccessDevices option GoResult"
  constructDeviceStates ::
    "ConditionalAccessDeviceStatesModel option \<Rightarrow> ConditionalAccessDeviceStates option GoResult"
  constructLocations ::
    "ConditionalAccessLocationsModel option \<Rightarrow> ConditionalAccessLocations option GoResult"
  constructPlatforms ::
    "ConditionalAccessPlatformsModel option \<Rightarrow> ConditionalAccessPlatforms option GoResult"
  constructAuthenticationFlows ::
    "ConditionalAccessAuthenticationFlowsModel option \<Rightarrow>
     ConditionalAccessAuthenticationFlows option GoResult"
  MarshalIndent :: "ConditionalAccessPolicy \<Rightarrow> string + string"

subsection \<open>The loops over lists\<close>

text \<open>
  The constructor converts every list of strings with the same loop,
  \<open>out := make([]string, len(xs)); for i, x := range xs { out[i] = x.ValueString() }\<close>,
  and every list of enumerators with the loop that parses each element, returns at the
  first parse error and dereferences the parsed pointer. \<open>fillStrings\<close> and
  \<open>fillEnums\<close> are the loops from index \<open>i\<close> on; \<open>valueStrings\<close> and \<open>parseEnums\<close>
  run them on the freshly made slice.
\<close>

fun fillStrings :: "types_String list \<Rightarrow> nat \<Rightarrow> string list \<Rightarrow> string list" where
  "fillStrings [] i out = out"
| "fillStrings (x # xs) i out = fillStrings xs (Suc i) (out[i := ValueString x])"

definition valueStrings :: "types_String list \<Rightarrow> string list" where
  "valueStrings xs = fillStrings xs 0 (replicate (length xs) [])"

fun fillEnums ::
  "(string \<Rightarrow> string + sdk_enum option) \<Rightarrow> string \<Rightarrow> types_String list \<Rightarrow> nat \<Rightarrow>
   sdk_enum list \<Rightarrow> sdk_enum list GoResult" where
  "fillEnums parse prefix [] i out = Ok out"
| "fillEnums parse prefix (x # xs) i out =
    (case parse (ValueString x) of
       Inl err \<Rightarrow> Err (prefix @ err)
     | Inr None \<Rightarrow> Panic
     | Inr (Some v) \<Rightarrow> fillEnums parse prefix xs (Suc i) (out[i := v]))"

definition parseEnums ::
  "(string \<Rightarrow> string + sdk_enum option) \<Rightarrow> string \<Rightarrow> types_String list \<Rightarrow>
   sdk_enum list GoResult" where
  "parseEnums parse prefix xs = fillEnums parse prefix xs 0 (replicate (length xs) 0)"

subsection \<open>The constructors of the nested objects\<close>

definition NewConditionalAccessApplications :: ConditionalAccessApplications where
  "NewConditionalAccessApplications =
    \<lparr>includeApplications = None, excludeApplications = None, includeUserActions = None\<rparr>"

definition constructApplications ::
  "ConditionalAccessApplicationsModel option \<Rightarrow> ConditionalAccessApplications option GoResult" where
  "constructApplications data =
    (case data of
       None \<Rightarrow> Ok None
     | Some d \<Rightarrow>
        let applications = NewConditionalAccessApplications;
            applications =
              (if length (IncludeApplications d) > 0
               then applications\<lparr>includeApplications := Some (valueStrings (IncludeApplications d))\<rparr>
               else applications);
            applications =
              (if length (ExcludeApplications d) > 0
               then applications\<lparr>excludeApplications := Some (valueStrings (ExcludeApplications d))\<rparr>
               else applications);
            applications =
              (if length (IncludeUserActions d) > 0
               then applications\<lparr>includeUserActions := Some (valueStrings (IncludeUserActions d))\<rparr>
               else applications)
        in Ok (Some applications))"

definition NewConditionalAccessExternalTenants :: ConditionalAccessExternalTenants where
  "NewConditionalAccessExternalTenants = \<lparr>tenantIds = None\<rparr>"

definition constructConditionalAccessExternalTenants ::
  "ConditionalAccessExternalTenantsModel option \<Rightarrow>
   ConditionalAccessExternalTenants option GoResult" where
  "constructConditionalAccessExternalTenants data =
    (case data of
       None \<Rightarrow> Ok None
     | Some d \<Rightarrow>
        let externalTenants = NewConditionalAccessExternalTenants;
            externalTenants =
              (if length (TenantIds d) > 0
               then externalTenants\<lparr>tenantIds := Some (valueStrings (TenantIds d))\<rparr>
               else externalTenants)
        in Ok (Some externalTenants))"

definition NewConditionalAccessGuestsOrExternalUsers :: ConditionalAccessGuestsOrExternalUsers where
  "NewConditionalAccessGuestsOrExternalUsers =
    \<lparr>guestOrExternalUserTypes = None, externalTenants = None\<rparr>"

definition constructGuestsOrExternalUsers ::
  "externals \<Rightarrow> ConditionalAccessGuestsOrExternalUsersModel option \<Rightarrow>
   ConditionalAccessGuestsOrExternalUsers option GoResult" where
  "constructGuestsOrExternalUsers ext data =
    (case data of
       None \<Rightarrow> Ok None
     | Some d \<Rightarrow>
        andThen
          (if \<not> IsNull (GuestOrExternalUserTypes d) then
             andThen
               (parsed ''error parsing guest or external user types: ''
                  (ParseConditionalAccessGuestOrExternalUserTypes ext
                     (ValueString (GuestOrExternalUserTypes d))))
               (\<lambda>guestOrExternalUserTypes.
                  Ok (NewConditionalAccessGuestsOrExternalUsers
                        \<lparr>guestOrExternalUserTypes := guestOrExternalUserTypes\<rparr>))
           else Ok NewConditionalAccessGuestsOrExternalUsers)
          (\<lambda>guestsOrExternalUsers.
        andThen
          (if ExternalTenants d \<noteq> None then
             andThen
               (wrapErr ''error constructing external tenants: ''
                  (constructConditionalAccessExternalTenants (ExternalTenants d)))
               (\<lambda>externalTenants.
                  Ok (guestsOrExternalUsers\<lparr>externalTenants := externalTenants\<rparr>))
           else Ok guestsOrExternalUsers)
          (\<lambda>guestsOrExternalUsers. Ok (Some guestsOrExternalUsers))))"

definition NewConditionalAccessUsers :: ConditionalAccessUsers where
  "NewConditionalAccessUsers =
    \<lparr>includeUsers = None, excludeUsers = None, includeGroups = None, excludeGroups = None,
     includeRoles = None, excludeRoles = None, includeGuestsOrExternalUsers = None,
     excludeGuestsOrExternalUsers = None\<rparr>"

definition constructUsers ::
  "externals \<Rightarrow> ConditionalAccessUsersModel option \<Rightarrow> ConditionalAccessUsers option GoResult" where
  "constructUsers ext data =
    (case data of
       None \<Rightarrow> Ok None
     | Some d \<Rightarrow>
        let users = NewConditionalAccessUsers;
            users =
              (if length (IncludeUsers d) > 0
               then users\<lparr>includeUsers := Some (valueStrings (IncludeUsers d))\<rparr> else users);
            users =
              (if length (ExcludeUsers d) > 0
               then users\<lparr>excludeUsers := Some (valueStrings (ExcludeUsers d))\<rparr> else users);
            users =
              (if length (IncludeGroups d) > 0
               then users\<lparr>includeGroups := Some (valueStrings (IncludeGroups d))\<rparr> else users);
            users =
              (if length (ExcludeGroups d) > 0
               then users\<lparr>excludeGroups := Some (valueStrings (ExcludeGroups d))\<rparr> else users);
            users =
              (if length (IncludeRoles d) > 0
               then users\<lparr>includeRoles := Some (valueStrings (IncludeRoles d))\<rparr> else users);
            users =
              (if length (ExcludeRoles d) > 0
               then users\<lparr>excludeRoles := Some (valueStrings (ExcludeRoles d))\<rparr> else users)
        in
        andThen
          (if IncludeGuestsOrExternalUsers d \<noteq> None then
             andThen
               (wrapErr ''error constructing include guests or external users: ''
                  (constructGuestsOrExternalUsers ext (IncludeGuestsOrExternalUsers d)))
               (\<lambda>guestsOrExternalUsers.
                  Ok (users\<lparr>includeGuestsOrExternalUsers := guestsOrExternalUsers\<rparr>))
           else Ok users)
          (\<lambda>users.
        andThen
          (if ExcludeGuestsOrExternalUsers d \<noteq> None then
             andThen
               (wrapErr ''error constructing exclude guests or external users: ''
                  (constructGuestsOrExternalUsers ext (ExcludeGuestsOrExternalUsers d)))
               (\<lambda>guestsOrExternalUsers.
                  Ok (users\<lparr>excludeGuestsOrExternalUsers := guestsOrExternalUsers\<rparr>))
           else Ok users)
          (\<lambda>users. Ok (Some users))))"

definition NewConditionalAccessClientApplications :: ConditionalAccessClientApplications where
  "NewConditionalAccessClientApplications =
    \<lparr>includeServicePrincipals = None, excludeServicePrincipals = None\<rparr>"

definition constructClientApplications ::
  "ConditionalAccessClientApplicationsModel option \<Rightarrow>
   ConditionalAccessClientApplications option GoResult" where
  "constructClientApplications data =
    (case data of
       None \<Rightarrow> Ok None
     | Some d \<Rightarrow>
        let clientApps = NewConditionalAccessClientApplications;
            clientApps =
              (if length (IncludeServicePrincipals d) > 0
               then clientApps\<lparr>includeServicePrincipals :=
                      Some (valueStrings (IncludeServicePrincipals d))\<rparr>
               else clientApps);
            clientApps =
              (if length (ExcludeServicePrincipals d) > 0
               then clientApps\<lparr>excludeServicePrincipals :=
                      Some (valueStrings (ExcludeServicePrincipals d))\<rparr>
               else clientApps)
        in Ok (Some clientApps))"

definition NewConditionalAccessConditionSet :: ConditionalAccessConditionSet where
  "NewConditionalAccessConditionSet =
    \<lparr>applications = None, authenticationFlows = None, clientApplications = None,
     clientAppTypes = None, devices = None, deviceStates = None, insiderRiskLevels = None,
     locations = None, platforms = None, servicePrincipalRiskLevels = None,
     signInRiskLevels = None, userRiskLevels = None, users = None\<rparr>"

definition constructConditions ::
  "externals \<Rightarrow> ConditionalAccessConditionsModel option \<Rightarrow>
   ConditionalAccessConditionSet option GoResult" where
  "constructConditions ext data =
    (case data of
       None \<Rightarrow> Ok None
     | Some d \<Rightarrow>
        andThen
          (if Applications d \<noteq> None then
             andThen
               (wrapErr ''error constructing applications: ''
                  (constructApplications (Applications d)))
               (\<lambda>applications.
                  Ok (NewConditionalAccessConditionSet\<lparr>applications := applications\<rparr>))
           else Ok NewConditionalAccessConditionSet)
          (\<lambda>conditions.
        andThen
          (if AuthenticationFlows d \<noteq> None then
             andThen
               (wrapErr ''error constructing authentication flows: ''
                  (constructAuthenticationFlows ext (AuthenticationFlows d)))
               (\<lambda>authFlows. Ok (conditions\<lparr>authenticationFlows := authFlows\<rparr>))
           else Ok conditions)
          (\<lambda>conditions.
        andThen
          (if ClientApplications d \<noteq> None then
             andThen
               (wrapErr ''error constructing client applications: ''
                  (constructClientApplications (ClientApplications d)))
               (\<lambda>clientApps. Ok (conditions\<lparr>clientApplications := clientApps\<rparr>))
           else Ok conditions)
          (\<lambda>conditions.
        andThen
          (if length (ClientAppTypes d) > 0 then
             andThen
               (parseEnums (ParseConditionalAccessClientApp ext)
                  ''error parsing client app type: '' (ClientAppTypes d))
               (\<lambda>clientAppTypes. Ok (conditions\<lparr>clientAppTypes := Some clientAppTypes\<rparr>))
           else Ok conditions)
          (\<lambda>conditions.
        andThen
          (if Devices d \<noteq> None then
             andThen
               (wrapErr ''error constructing devices: '' (constructDevices ext (Devices d)))
               (\<lambda>devices. Ok (conditions\<lparr>devices := devices\<rparr>))
           else Ok conditions)
          (\<lambda>conditions.
        andThen
          (if DeviceStates d \<noteq> None then
             andThen
               (wrapErr ''error constructing device states: ''
                  (constructDeviceStates ext (DeviceStates d)))
               (\<lambda>deviceStates. Ok (conditions\<lparr>deviceStates := deviceStates\<rparr>))
           else Ok conditions)
          (\<lambda>conditions.
        andThen
          (if \<not> IsNull (InsiderRiskLevels d) then
             andThen
               (parsed ''error parsing insider risk level: ''
                  (ParseConditionalAccessInsiderRiskLevels ext
                     (ValueString (InsiderRiskLevels d))))
               (\<lambda>insiderRiskLevel. Ok (conditions\<lparr>insiderRiskLevels := insiderRiskLevel\<rparr>))
           else Ok conditions)
          (\<lambda>conditions.
        andThen
          (if Locations d \<noteq> None then
             andThen
               (wrapErr ''error constructing locations: '' (constructLocations ext (Locations d)))
               (\<lambda>locations. Ok (conditions\<lparr>locations := locations\<rparr>))
           else Ok conditions)
          (\<lambda>conditions.
        andThen
          (if Platforms d \<noteq> None then
             andThen
               (wrapErr ''error constructing platforms: '' (constructPlatforms ext (Platforms d)))
               (\<lambda>platforms. Ok (conditions\<lparr>platforms := platforms\<rparr>))
           else Ok conditions)
          (\<lambda>conditions.
        andThen
          (if length (ServicePrincipalRiskLevels d) > 0 then
             andThen
               (parseEnums (ParseRiskLevel ext)
                  ''error parsing service principal risk level: ''
                  (ServicePrincipalRiskLevels d))
               (\<lambda>riskLevels. Ok (conditions\<lparr>servicePrincipalRiskLevels := Some riskLevels\<rparr>))
           else Ok conditions)
          (\<lambda>conditions.
        andThen
          (if length (SignInRiskLevels d) > 0 then
             andThen
               (parseEnums (ParseRiskLevel ext)
                  ''error parsing sign-in risk level: '' (SignInRiskLevels d))
               (\<lambda>riskLevels. Ok (conditions\<lparr>signInRiskLevels := Some riskLevels\<rparr>))
           else Ok conditions)
          (\<lambda>conditions.
        andThen
          (if length (UserRiskLevels d) > 0 then
             andThen
               (parseEnums (ParseRiskLevel ext)
                  ''error parsing user risk level: '' (UserRiskLevels d))
               (\<lambda>riskLevels. Ok (conditions\<lparr>userRiskLevels := Some riskLevels\<rparr>))
           else Ok conditions)
          (\<lambda>conditions.
        andThen
          (if Users d \<noteq> None then
             andThen
               (wrapErr ''error constructing users: '' (constructUsers ext (Users d)))
               (\<lambda>users. Ok (conditions\<lparr>users := users\<rparr>))
           else Ok conditions)
          (\<lambda>conditions. Ok (Some conditions)))))))))))))))"

definition NewAuthenticationStrengthPolicy :: AuthenticationStrengthPolicy where
  "NewAuthenticationStrengthPolicy =
    \<lparr>AuthenticationStrengthPolicy.displayName = None,
     AuthenticationStrengthPolicy.description = None,
     policyType = None, requirementsSatisfied = None, allowedCombinations = None\<rparr>"

definition constructAuthenticationStrength ::
  "AuthenticationStrengthPolicyModel option \<Rightarrow> AuthenticationStrengthPolicy option GoResult" where
  "constructAuthenticationStrength data =
    (case data of
       None \<Rightarrow> Ok None
     | Some d \<Rightarrow>
        let authStrength = NewAuthenticationStrengthPolicy;
            authStrength =
              (if \<not> IsNull (AuthenticationStrengthPolicyModel.DisplayName d)
               then authStrength\<lparr>AuthenticationStrengthPolicy.displayName :=
                      Some (ValueString (AuthenticationStrengthPolicyModel.DisplayName d))\<rparr>
               else authStrength);
            authStrength =
              (if \<not> IsNull (AuthenticationStrengthPolicyModel.Description d)
               then authStrength\<lparr>AuthenticationStrengthPolicy.description :=
                      Some (ValueString (AuthenticationStrengthPolicyModel.Description d))\<rparr>
               else authStrength);
            authStrength =
              (if \<not> IsNull (PolicyType d)
               then authStrength\<lparr>policyType := Some (ValueString (PolicyType d))\<rparr>
               else authStrength);
            authStrength =
              (if \<not> IsNull (RequirementsSatisfied d)
               then authStrength\<lparr>requirementsSatisfied :=
                      Some (ValueString (RequirementsSatisfied d))\<rparr>
               else authStrength);
            authStrength =
              (if length (AllowedCombinations d) > 0
               then authStrength\<lparr>allowedCombinations :=
                      Some (valueStrings (AllowedCombinations d))\<rparr>
               else authStrength)
        in Ok (Some authStrength))"

definition NewConditionalAccessGrantControls :: ConditionalAccessGrantControls where
  "NewConditionalAccessGrantControls =
    \<lparr>operator = None, builtInControls = None, customAuthenticationFactors = None,
     termsOfUse = None, authenticationStrength = None\<rparr>"

definition constructGrantControls ::
  "externals \<Rightarrow> ConditionalAccessGrantControlsModel option \<Rightarrow>
   ConditionalAccessGrantControls option GoResult" where
  "constructGrantControls ext data =
    (case data of
       None \<Rightarrow> Ok None
     | Some d \<Rightarrow>
        andThen
          (if \<not> IsNull (Operator d) then
             andThen
               (parsed ''error parsing grant control operator: ''
                  (ParseConditionalAccessGrantControlOperator ext (ValueString (Operator d))))
               (\<lambda>operator. Ok (NewConditionalAccessGrantControls\<lparr>operator := operator\<rparr>))
           else Ok NewConditionalAccessGrantControls)
          (\<lambda>grantControls.
        andThen
          (if length (BuiltInControls d) > 0 then
             andThen
               (parseEnums (ParseConditionalAccessGrantControl ext)
                  ''error parsing built-in control: '' (BuiltInControls d))
               (\<lambda>builtInControls.
                  Ok (grantControls\<lparr>builtInControls := Some builtInControls\<rparr>))
           else Ok grantControls)
          (\<lambda>grantControls.
        let grantControls =
              (if length (CustomAuthenticationFactors d) > 0
               then grantControls\<lparr>customAuthenticationFactors :=
                      Some (valueStrings (CustomAuthenticationFactors d))\<rparr>
               else grantControls);
            grantControls =
              (if length (TermsOfUse d) > 0
               then grantControls\<lparr>termsOfUse := Some (valueStrings (TermsOfUse d))\<rparr>
               else grantControls)
        in
        andThen
          (if AuthenticationStrength d \<noteq> None then
             andThen
               (wrapErr ''error constructing authentication strength: ''
                  (constructAuthenticationStrength (AuthenticationStrength d)))
               (\<lambda>authStrength. Ok (grantControls\<lparr>authenticationStrength := authStrength\<rparr>))
           else Ok grantControls)
          (\<lambda>grantControls. Ok (Some grantControls)))))"

definition NewConditionalAccessSessionControls :: ConditionalAccessSessionControls where
  "NewConditionalAccessSessionControls =
    \<lparr>applicationEnforcedRestrictions = None, continuousAccessEvaluation = None,
     persistentBrowser = None, signInFrequency = None, secureSignInSession = None,
     disableResilienceDefaults = None\<rparr>"

definition NewApplicationEnforcedRestrictionsSessionControl ::
  ApplicationEnforcedRestrictionsSessionControl where
  "NewApplicationEnforcedRestrictionsSessionControl =
    \<lparr>ApplicationEnforcedRestrictionsSessionControl.isEnabled = None\<rparr>"

definition NewContinuousAccessEvaluationSessionControl ::
  ContinuousAccessEvaluationSessionControl where
  "NewContinuousAccessEvaluationSessionControl =
    \<lparr>ContinuousAccessEvaluationSessionControl.mode = None\<rparr>"

definition NewPersistentBrowserSessionControl :: PersistentBrowserSessionControl where
  "NewPersistentBrowserSessionControl =
    \<lparr>PersistentBrowserSessionControl.isEnabled = None,
     PersistentBrowserSessionControl.mode = None\<rparr>"

definition NewSignInFrequencySessionControl :: SignInFrequencySessionControl where
  "NewSignInFrequencySessionControl =
    \<lparr>SignInFrequencySessionControl.isEnabled = None, typeEscaped = None, signInValue = None,
     frequencyInterval = None, authenticationType = None\<rparr>"

definition NewSecureSignInSessionControl :: SecureSignInSessionControl where
  "NewSecureSignInSessionControl = \<lparr>SecureSignInSessionControl.isEnabled = None\<rparr>"

text \<open>
  \<open>constructSessionControls\<close> builds each session control inside its own
  \<open>if data.X != nil { ... }\<close> block and then sets it. The body of each block, which
  builds the one control from its model, is a function of its own here, named after the
  control it builds.
\<close>

definition applicationEnforcedRestrictionsSessionControl ::
  "ApplicationEnforcedRestrictionsModel \<Rightarrow> ApplicationEnforcedRestrictionsSessionControl" where
  "applicationEnforcedRestrictionsSessionControl restrictions =
    (let isEnabled = ValueBool (ApplicationEnforcedRestrictionsModel.IsEnabled restrictions)
     in NewApplicationEnforcedRestrictionsSessionControl
          \<lparr>ApplicationEnforcedRestrictionsSessionControl.isEnabled := Some isEnabled\<rparr>)"

definition continuousAccessEvaluationSessionControl ::
  "externals \<Rightarrow> ContinuousAccessEvaluationModel \<Rightarrow>
   ContinuousAccessEvaluationSessionControl GoResult" where
  "continuousAccessEvaluationSessionControl ext evaluation =
    (if \<not> IsNull (ContinuousAccessEvaluationModel.Mode evaluation) then
       andThen
         (parsed ''error parsing continuous access evaluation mode: ''
            (ParseContinuousAccessEvaluationMode ext
               (ValueString (ContinuousAccessEvaluationModel.Mode evaluation))))
         (\<lambda>parsedMode.
            Ok (NewContinuousAccessEvaluationSessionControl
                  \<lparr>ContinuousAccessEvaluationSessionControl.mode := parsedMode\<rparr>))
     else Ok NewContinuousAccessEvaluationSessionControl)"

definition persistentBrowserSessionControl ::
  "externals \<Rightarrow> PersistentBrowserModel \<Rightarrow> PersistentBrowserSessionControl GoResult" where
  "persistentBrowserSessionControl ext browser =
    (let isEnabled = ValueBool (PersistentBrowserModel.IsEnabled browser);
         persistentBrowser = NewPersistentBrowserSessionControl
           \<lparr>PersistentBrowserSessionControl.isEnabled := Some isEnabled\<rparr>
     in
     if \<not> IsNull (PersistentBrowserModel.Mode browser) then
       andThen
         (parsed ''error parsing persistent browser session mode: ''
            (ParsePersistentBrowserSessionMode ext
               (ValueString (PersistentBrowserModel.Mode browser))))
         (\<lambda>parsedMode.
            Ok (persistentBrowser\<lparr>PersistentBrowserSessionControl.mode := parsedMode\<rparr>))
     else Ok persistentBrowser)"

definition signInFrequencySessionControl ::
  "externals \<Rightarrow> SignInFrequencyModel \<Rightarrow> SignInFrequencySessionControl GoResult" where
  "signInFrequencySessionControl ext frequency =
    (let isEnabled = ValueBool (SignInFrequencyModel.IsEnabled frequency);
         signInFrequency = NewSignInFrequencySessionControl
           \<lparr>SignInFrequencySessionControl.isEnabled := Some isEnabled\<rparr>
     in
     andThen
       (if \<not> IsNull (Type frequency) then
          andThen
            (parsed ''error parsing sign-in frequency type: ''
               (ParseSigninFrequencyType ext (ValueString (Type frequency))))
            (\<lambda>freqType. Ok (signInFrequency\<lparr>typeEscaped := freqType\<rparr>))
        else Ok signInFrequency)
       (\<lambda>signInFrequency.
     let signInFrequency =
           (if \<not> IsNull (Value frequency)
            then signInFrequency\<lparr>signInValue := Some (ValueInt32 (Value frequency))\<rparr>
            else signInFrequency)
     in
     andThen
       (if \<not> IsNull (FrequencyInterval frequency) then
          andThen
            (parsed ''error parsing sign-in frequency interval: ''
               (ParseSignInFrequencyInterval ext (ValueString (FrequencyInterval frequency))))
            (\<lambda>freqInterval. Ok (signInFrequency\<lparr>frequencyInterval := freqInterval\<rparr>))
        else Ok signInFrequency)
       (\<lambda>signInFrequency.
     andThen
       (if \<not> IsNull (AuthenticationType frequency) then
          andThen
            (parsed ''error parsing sign-in frequency authentication type: ''
               (ParseSignInFrequencyAuthenticationType ext
                  (ValueString (AuthenticationType frequency))))
            (\<lambda>authType. Ok (signInFrequency\<lparr>authenticationType := authType\<rparr>))
        else Ok signInFrequency)
       (\<lambda>signInFrequency. Ok signInFrequency))))"

definition secureSignInSessionControl :: "SecureSignInSessionModel \<Rightarrow> SecureSignInSessionControl" where
  "secureSignInSessionControl session =
    NewSecureSignInSessionControl
      \<lparr>SecureSignInSessionControl.isEnabled :=
         Some (ValueBool (SecureSignInSessionModel.IsEnabled session))\<rparr>"

definition constructSessionControls ::
  "externals \<Rightarrow> ConditionalAccessSessionControlsModel option \<Rightarrow>
   ConditionalAccessSessionControls option GoResult" where
  "constructSessionControls ext data =
    (case data of
       None \<Rightarrow> Ok None
     | Some d \<Rightarrow>
        let sessionControls = NewConditionalAccessSessionControls;
            sessionControls =
              (case ApplicationEnforcedRestrictions d of
                 None \<Rightarrow> sessionControls
               | Some restrictions \<Rightarrow>
                  sessionControls\<lparr>applicationEnforcedRestrictions :=
                    Some (applicationEnforcedRestrictionsSessionControl restrictions)\<rparr>);
            sessionControls =
              (case ApplicationEnforcedRestrictions d of
                 None \<Rightarrow> sessionControls
               | Some restrictions \<Rightarrow>
                  sessionControls\<lparr>applicationEnforcedRestrictions :=
                    Some (applicationEnforcedRestrictionsSessionControl restrictions)\<rparr>)
        in
        andThen
          (case ContinuousAccessEvaluation d of
             None \<Rightarrow> Ok sessionControls
           | Some evaluation \<Rightarrow>
              andThen (continuousAccessEvaluationSessionControl ext evaluation)
                (\<lambda>continuousAccessEvaluation.
                   Ok (sessionControls
                         \<lparr>continuousAccessEvaluation := Some continuousAccessEvaluation\<rparr>)))
          (\<lambda>sessionControls.
        andThen
          (case PersistentBrowser d of
             None \<Rightarrow> Ok sessionControls
           | Some browser \<Rightarrow>
              andThen (persistentBrowserSessionControl ext browser)
                (\<lambda>persistentBrowser.
                   Ok (sessionControls\<lparr>persistentBrowser := Some persistentBrowser\<rparr>)))
          (\<lambda>sessionControls.
        andThen
          (case SignInFrequency d of
             None \<Rightarrow> Ok sessionControls
           | Some frequency \<Rightarrow>
              andThen (signInFrequencySessionControl ext frequency)
                (\<lambda>signInFrequency.
                   Ok (sessionControls\<lparr>signInFrequency := Some signInFrequency\<rparr>)))
          (\<lambda>sessionControls.
        let sessionControls =
              (case SecureSignInSession d of
                 None \<Rightarrow> sessionControls
               | Some session \<Rightarrow>
                  sessionControls\<lparr>secureSignInSession :=
                    Some (secureSignInSessionControl session)\<rparr>);
            sessionControls =
              sessionControls\<lparr>disableResilienceDefaults :=
                Some (ValueBool (DisableResilienceDefaults d))\<rparr>
        in Ok (Some sessionControls)))))"

subsection \<open>The constructor\<close>

definition NewConditionalAccessPolicy :: ConditionalAccessPolicy where
  "NewConditionalAccessPolicy =
    \<lparr>ConditionalAccessPolicy.displayName = None,
     ConditionalAccessPolicy.description = None,
     state = None, conditions = None, grantControls = None, sessionControls = None\<rparr>"

text \<open>
  \<open>constructResource\<close> returns the request body together with the lines it wrote to the
  debug log (\<open>tflog.Debug\<close>), which it writes only on the path that returns the body.
\<close>

definition constructResource ::
  "externals \<Rightarrow> ConditionalAccessPolicyResourceModel \<Rightarrow>
   (ConditionalAccessPolicy \<times> string list) GoResult" where
  "constructResource ext data =
    (let requestBody = NewConditionalAccessPolicy;
         displayName = ValueString (ConditionalAccessPolicyResourceModel.DisplayName data);
         requestBody = requestBody\<lparr>ConditionalAccessPolicy.displayName := Some displayName\<rparr>;
         requestBody =
           (if \<not> IsNull (ConditionalAccessPolicyResourceModel.Description data)
            then requestBody\<lparr>ConditionalAccessPolicy.description :=
                   Some (ValueString (ConditionalAccessPolicyResourceModel.Description data))\<rparr>
            else requestBody)
     in
     andThen
       (if \<not> IsNull (ConditionalAccessPolicyResourceModel.State data) then
          (case ParseConditionalAccessPolicyState ext
                  (ValueString (ConditionalAccessPolicyResourceModel.State data)) of
             Inl err \<Rightarrow> Err (''invalid state: '' @ err)
           | Inr stateAny \<Rightarrow>
              (case stateAny of
                 AnyNil \<Rightarrow> Ok requestBody
               | AnyPolicyState policyState \<Rightarrow> Ok (requestBody\<lparr>state := policyState\<rparr>)
               | AnyOther typeName \<Rightarrow> Err (''unexpected type for state: '' @ typeName)))
        else Ok requestBody)
       (\<lambda>requestBody.
     andThen
       (if Conditions data \<noteq> None then
          andThen
            (wrapErr ''error constructing conditions: ''
               (constructConditions ext (Conditions data)))
            (\<lambda>conditions. Ok (requestBody\<lparr>conditions := conditions\<rparr>))
        else Ok requestBody)
       (\<lambda>requestBody.
     andThen
       (if GrantControls data \<noteq> None then
          andThen
            (wrapErr ''error constructing grant controls: ''
               (constructGrantControls ext (GrantControls data)))
            (\<lambda>grantControls. Ok (requestBody\<lparr>grantControls := grantControls\<rparr>))
        else Ok requestBody)
       (\<lambda>requestBody.
     andThen
       (if SessionControls data \<noteq> None then
          andThen
            (wrapErr ''error constructing session controls: ''
               (constructSessionControls ext (SessionControls data)))
            (\<lambda>sessionControls. Ok (requestBody\<lparr>sessionControls := sessionControls\<rparr>))
        else Ok requestBody)
       (\<lambda>requestBody.
     (case MarshalIndent ext requestBody of
        Inl err \<Rightarrow> Err (''error marshalling request body to JSON: '' @ err)
      | Inr requestBodyJSON \<Rightarrow>
         Ok (requestBody,
             [''Constructed conditional access policy resource:'' @ [CHR 0x0A]
                @ requestBodyJSON])))))))"

subsection \<open>Concrete inputs for the constructor\<close>

text \<open>
  Parsers for the examples. \<open>example_enumerator\<close> knows the names it is given and returns
  an error for any other string. The parser of the policy state knows three names; what it
  answers for another string is a parameter: an error, or nil without an error.
\<close>

fun example_enumerator :: "string list \<Rightarrow> sdk_enum \<Rightarrow> string \<Rightarrow> string + sdk_enum option" where
  "example_enumerator [] i v = Inl (''Unknown value: '' @ v)"
| "example_enumerator (n # ns) i v =
    (if v = n then Inr (Some i) else example_enumerator ns (i + 1) v)"

definition example_parse_state :: "(string \<Rightarrow> string + any) \<Rightarrow> string \<Rightarrow> string + any" where
  "example_parse_state unknown v =
    (if v = ''enabled'' then Inr (AnyPolicyState (Some 0))
     else if v = ''disabled'' then Inr (AnyPolicyState (Some 1))
     else if v = ''enabledForReportingButNotEnforced'' then Inr (AnyPolicyState (Some 2))
     else unknown v)"

definition example_externals :: externals where
  "example_externals =
    \<lparr>ParseConditionalAccessPolicyState =
       example_parse_state (\<lambda>v. Inl (''Unknown ConditionalAccessPolicyState value: '' @ v)),
     ParseConditionalAccessClientApp =
       example_enumerator [''all'', ''browser'', ''mobileAppsAndDesktopClients''] 0,
     ParseConditionalAccessInsiderRiskLevels =
       example_enumerator [''minor'', ''moderate'', ''elevated''] 1,
     ParseRiskLevel = example_enumerator [''low'', ''medium'', ''high''] 0,
     ParseConditionalAccessGuestOrExternalUserTypes =
       example_enumerator [''none'', ''internalGuest'', ''b2bCollaborationGuest''] 0,
     ParseConditionalAccessGrantControlOperator = example_enumerator [''AND'', ''OR''] 0,
     ParseConditionalAccessGrantControl =
       example_enumerator [''block'', ''mfa'', ''compliantDevice''] 0,
     ParseContinuousAccessEvaluationMode =
       example_enumerator [''strictEnforcement'', ''disabled''] 0,
     ParsePersistentBrowserSessionMode = example_enumerator [''always'', ''never''] 0,
     ParseSigninFrequencyType = example_enumerator [''days'', ''hours''] 0,
     ParseSignInFrequencyInterval = example_enumerator [''timeBased'', ''everyTime''] 0,
     ParseSignInFrequencyAuthenticationType =
       example_enumerator [''primaryAndSecondaryAuthentication'', ''secondaryAuthentication''] 0,
     constructDevices = (\<lambda>m. Ok None),
     constructDeviceStates = (\<lambda>m. Ok None),
     constructLocations = (\<lambda>m. Ok None),
     constructPlatforms = (\<lambda>m. Ok None),
     constructAuthenticationFlows = (\<lambda>m. Ok None),
     MarshalIndent =
       (\<lambda>body. Inr (''{displayName: ''
                      @ (case ConditionalAccessPolicy.displayName body of
                           None \<Rightarrow> ''null'' | Some name \<Rightarrow> name)
                      @ ''}''))\<rparr>"

definition example_externals_nil_for_unknown_state :: externals where
  "example_externals_nil_for_unknown_state =
    example_externals\<lparr>ParseConditionalAccessPolicyState :=
      example_parse_state (\<lambda>v. Inr AnyNil)\<rparr>"

definition example_externals_marshal_fails :: externals where
  "example_externals_marshal_fails =
    example_externals\<lparr>MarshalIndent := (\<lambda>body. Inl ''json: unsupported type'')\<rparr>"

definition example_conditions :: ConditionalAccessConditionsModel where
  "example_conditions =
    \<lparr>Applications = Some \<lparr>IncludeApplications = [Known ''Office365'', Known ''AzurePortal''],
                           ExcludeApplications = [], IncludeUserActions = []\<rparr>,
     AuthenticationFlows = None,
     ClientApplications = None,
     ClientAppTypes = [Known ''browser'', Known ''all''],
     Devices = None,
     DeviceStates = None,
     InsiderRiskLevels = Null,
     Locations = None,
     Platforms = None,
     ServicePrincipalRiskLevels = [],
     SignInRiskLevels = [Known ''high'', Known ''low''],
     UserRiskLevels = [],
     Users = Some \<lparr>IncludeUsers = [Known ''user-b'', Known ''user-a''], ExcludeUsers = [],
                    IncludeGroups = [], ExcludeGroups = [], IncludeRoles = [],
                    ExcludeRoles = [], IncludeGuestsOrExternalUsers = None,
                    ExcludeGuestsOrExternalUsers = None\<rparr>\<rparr>"

definition example_session_controls :: ConditionalAccessSessionControlsModel where
  "example_session_controls =
    \<lparr>ApplicationEnforcedRestrictions = None, ContinuousAccessEvaluation = None,
     PersistentBrowser = None, SignInFrequency = None, SecureSignInSession = None,
     DisableResilienceDefaults = Null\<rparr>"

definition example_policy :: ConditionalAccessPolicyResourceModel where
  "example_policy =
    \<lparr>ConditionalAccessPolicyResourceModel.DisplayName = Known ''Require MFA'',
     ConditionalAccessPolicyResourceModel.Description = Null,
     ConditionalAccessPolicyResourceModel.State = Known ''enabled'',
     Conditions = Some example_conditions,
     GrantControls = Some \<lparr>Operator = Known ''OR'',
                            BuiltInControls = [Known ''mfa'', Known ''compliantDevice''],
                            CustomAuthenticationFactors = [], TermsOfUse = [],
                            AuthenticationStrength = None\<rparr>,
     SessionControls = None\<rparr>"

subsection \<open>The specification's reading of a nested collection\<close>

text \<open>
  What the specification asks of a collection field, in its own words: the elements are
  mapped one by one in the order of the input, and a collection without elements is left
  out of the request. \<open>spec_strings\<close> is the request value for a list of strings;
  \<open>spec_enums\<close> holds when the request value is the list of the parsed elements, each at
  the position of the element it was parsed from.
\<close>

definition spec_strings :: "types_String list \<Rightarrow> string list option" where
  "spec_strings xs = (if xs = [] then None else Some (map ValueString xs))"

definition spec_enums ::
  "(string \<Rightarrow> string + sdk_enum option) \<Rightarrow> types_String list \<Rightarrow> sdk_enum list option \<Rightarrow> bool" where
  "spec_enums parse xs out =
    (case out of
       None \<Rightarrow> xs = []
     | Some ys \<Rightarrow> xs \<noteq> [] \<and> list_all2 (\<lambda>x y. parse (ValueString x) = Inr (Some y)) xs ys)"
section \<open>Properties of the CRUD handlers\<close>

subsection \<open>Diagnostics\<close>

lemma HasError_iff: "HasError ds = (\<exists>d\<in>set ds. IsErrorDiagnostic d)"
  by (induction ds) auto

lemma set_Append: "set (Append ds new) = set ds \<union> set new"
  by (induction new arbitrary: ds) auto

lemma HasError_Append: "HasError (Append ds new) = (HasError ds \<or> HasError new)"
  by (auto simp: HasError_iff set_Append)

lemma HasError_AddError: "HasError (AddError ds s d)"
  by (simp only: AddError_def HasError_Append) simp

lemma HasError_AddWarning: "HasError (AddWarning ds s d) = HasError ds"
  by (simp only: AddWarning_def HasError_Append) simp

lemma set_AddWarning: "WarningDiagnostic s d \<in> set (AddWarning ds s d)"
  by (simp only: AddWarning_def set_Append) simp

lemma set_AddError: "ErrorDiagnostic s d \<in> set (AddError ds s d)"
  by (simp only: AddError_def set_Append) simp

subsection \<open>Read\<close>

lemmas example_defs = example_env_def example_decode_def example_map_def example_resource_def
  example_client_def example_client_not_found_def example_plan_def example_state_def
  example_env_construct_fails_def AddError_def AddWarning_def Second_def

text \<open>
  The Read handler of crud.go on a GET error that is classified not-found: it removes the
  resource from the state and adds a warning, and no error.
\<close>

lemma Read_not_found_removes_state:
  assumes "State_Get env (ReadRequest.State req) = (stored, ds)"
    and "\<not> HasError (Append (Diagnostics resp) ds)"
    and "\<not> IsNull (ID stored)" and "ValueString (ID stored) \<noteq> []"
    and "Timeouts_Read env (Timeouts stored) (30 * Second) = (t, ds')"
    and "\<not> HasError (Append (Append (Diagnostics resp) ds) ds')"
    and "client r = Some c"
    and "Get c (ValueString (ID stored)) = Inl err"
    and "IsNotFoundError err"
  shows "Read env r req resp =
     Returns (resp\<lparr>Response.State := State_RemoveResource env (Response.State resp),
        Diagnostics := AddWarning (Append (Append (Diagnostics resp) ds) ds')
           ''Assignment filter not found''
           (''Assignment filter with ID '' @ ValueString (ID stored) @ '' was not found. Removing from state.'')\<rparr>)
       [GetCall (ValueString (ID stored))]"
  using assms by (simp add: Read_def Let_def)

text \<open>
  Claim C1: every Read whose GET fails with a not-found error removes the resource from the
  state and adds a warning, not an error. The Read handler of crud.go does so (lemma
  \<open>Read_not_found_removes_state\<close>). The Read handler of the second source file does not
  classify the error: at the input below, where the service answers not-found for the stored
  filter \<open>af-1\<close>, it adds an error diagnostic and leaves the resource in the state.
\<close>

theorem Read_part_000_not_found_is_error:
  "Read_part_000 example_env (example_resource example_client_not_found)
     \<lparr>ReadRequest.State = Some example_state\<rparr>
     \<lparr>Response.State = Some example_state, Diagnostics = []\<rparr> =
   Returns
     \<lparr>Response.State = Some example_state,
      Diagnostics = [ErrorDiagnostic ''Error reading assignment filter''
                       ''Could not read assignment filter: 404 Not Found'']\<rparr>
     [GetCall ''af-1'']"
  by (simp add: Read_part_000_def example_defs)

subsection \<open>Create\<close>

text \<open>
  Claim C5: a successful Create runs the constructor, the POST, the capture of the returned
  identifier, the state mapper over the response, and then persists the model. The Create
  handler of crud.go does so (lemma \<open>Create_success\<close> below). The Create handler of the
  second source file persists the plan with the identifier alone: at the input below the
  response of the POST carries a creation time, and the persisted model still holds
  \<open>created_date_time\<close> as unknown.
\<close>

theorem Create_part_000_skips_state_mapper:
  "Create_part_000 example_env (example_resource example_client)
     \<lparr>CreateRequest.Plan = Some example_plan\<rparr>
     \<lparr>Response.State = None, Diagnostics = []\<rparr> =
   Returns
     \<lparr>Response.State = Some (example_plan\<lparr>ID := Known ''af-1''\<rparr>), Diagnostics = []\<rparr>
     [PostCall \<lparr>filter_id = None, filter_displayName = ''corp laptops'',
                filter_createdDateTime = []\<rparr>]
   \<and> CreatedDateTime (example_plan\<lparr>ID := Known ''af-1''\<rparr>) = Unknown
   \<and> Post example_client \<lparr>filter_id = None, filter_displayName = ''corp laptops'',
                filter_createdDateTime = []\<rparr> =
       Inr (Some \<lparr>filter_id = Some ''af-1'', filter_displayName = ''corp laptops'',
                filter_createdDateTime = ''2024-05-01T10:00:00Z''\<rparr>)"
  by (simp add: Create_part_000_def example_defs)

text \<open>
  The Create handler of crud.go, when every step succeeds: the body of the one POST is the
  constructor's result, the model given to the state mapper carries the identifier of the
  POST's response, and the model written to the state is the state mapper's result.
\<close>

lemma Create_success:
  assumes "Plan_Get env (CreateRequest.Plan req) = (plan, ds)"
    and "\<not> HasError (Append (Diagnostics resp) ds)"
    and "Timeouts_Create env (Timeouts plan) (30 * Second) = (t, ds')"
    and "\<not> HasError (Append (Append (Diagnostics resp) ds) ds')"
    and "constructAssignmentFilter env plan = Inr body"
    and "client r = Some c"
    and "Post c body = Inr (Some af)"
    and "GetId env af = Some newId"
    and "State_Set env (Response.State resp)
           (mapRemoteStateToTerraform env (plan\<lparr>ID := Known newId\<rparr>) (Some af)) = (st, ds'')"
  shows "Create env r req resp =
     Returns (resp\<lparr>Response.State := st,
        Diagnostics := Append (Append (Append (Diagnostics resp) ds) ds') ds''\<rparr>)
       [PostCall body]"
  using assms by (simp add: Create_def Let_def)

text \<open>
  Claim C6: a Create that fails at plan decoding, at construction or at the POST returns
  without writing the state. Both Create handlers return with the state they received and
  with an error among the diagnostics.
\<close>

theorem Create_failure_leaves_state:
  assumes "Plan_Get env (CreateRequest.Plan req) = (plan, ds)"
    and "HasError (Append (Diagnostics resp) ds)
         \<or> (\<exists>err. constructAssignmentFilter env plan = Inl err)
         \<or> (\<exists>c body err. client r = Some c \<and> constructAssignmentFilter env plan = Inr body
                \<and> Post c body = Inl err)"
  shows "(\<exists>resp' calls. Create env r req resp = Returns resp' calls
            \<and> Response.State resp' = Response.State resp \<and> HasError (Diagnostics resp'))
       \<and> (\<exists>resp' calls. Create_part_000 env r req resp = Returns resp' calls
            \<and> Response.State resp' = Response.State resp \<and> HasError (Diagnostics resp'))"
proof (cases "HasError (Append (Diagnostics resp) ds)")
  case True
  with assms(1) show ?thesis by (simp add: Create_def Create_part_000_def Let_def)
next
  case False
  obtain t ds' where t: "Timeouts_Create env (Timeouts plan) (30 * Second) = (t, ds')"
    by (cases "Timeouts_Create env (Timeouts plan) (30 * Second)")
  show ?thesis
  proof (cases "HasError (Append (Append (Diagnostics resp) ds) ds')")
    case True
    with assms(1) False t show ?thesis
      by (simp add: Create_def Create_part_000_def Let_def HasError_AddError split: option.split)
  next
    case noT: False
    from assms(2) False consider
        (construct) err where "constructAssignmentFilter env plan = Inl err"
      | (post) c body err where "client r = Some c" "constructAssignmentFilter env plan = Inr body"
          "Post c body = Inl err"
      by blast
    then show ?thesis
    proof cases
      case construct
      with assms(1) False t noT show ?thesis
        by (simp add: Create_def Create_part_000_def Let_def HasError_AddError split: option.split)
    next
      case post
      with assms(1) False t noT show ?thesis
        by (simp add: Create_def Create_part_000_def Let_def HasError_AddError)
    qed
  qed
qed


theorem Create_failure_leaves_state_witness:
  "Plan_Get example_env_construct_fails (CreateRequest.Plan \<lparr>CreateRequest.Plan = Some example_plan\<rparr>)
     = (example_plan, [])
   \<and> constructAssignmentFilter example_env_construct_fails example_plan = Inl ''invalid platform: bogus''
   \<and> (\<exists>resp' calls.
         Create example_env_construct_fails (example_resource example_client)
           \<lparr>CreateRequest.Plan = Some example_plan\<rparr>
           \<lparr>Response.State = None, Diagnostics = []\<rparr> = Returns resp' calls
         \<and> Response.State resp' = None \<and> HasError (Diagnostics resp'))
   \<and> (\<exists>resp' calls.
         Create_part_000 example_env_construct_fails (example_resource example_client)
           \<lparr>CreateRequest.Plan = Some example_plan\<rparr>
           \<lparr>Response.State = None, Diagnostics = []\<rparr> = Returns resp' calls
         \<and> Response.State resp' = None \<and> HasError (Diagnostics resp'))"
proof -
  have h1: "Plan_Get example_env_construct_fails
              (CreateRequest.Plan \<lparr>CreateRequest.Plan = Some example_plan\<rparr>) = (example_plan, [])"
    by (simp add: example_defs)
  have h2: "constructAssignmentFilter example_env_construct_fails example_plan
              = Inl ''invalid platform: bogus''"
    by (simp add: example_defs)
  from h2 have h3: "HasError (Append (Diagnostics \<lparr>Response.State = None, Diagnostics = []\<rparr>) [])
         \<or> (\<exists>err. constructAssignmentFilter example_env_construct_fails example_plan = Inl err)
         \<or> (\<exists>c body err. client (example_resource example_client) = Some c
                \<and> constructAssignmentFilter example_env_construct_fails example_plan = Inr body
                \<and> Post c body = Inl err)"
    by blast
  show ?thesis
    using h1 h2 Create_failure_leaves_state [OF h1 h3] by simp
qed

subsection \<open>Update\<close>

text \<open>
  Claim C7: the two Update handlers differ on a PATCH error that is classified not-found.
  The handler of crud.go removes the resource from the state with a warning when the error
  is not-found and \<open>isCreate\<close> is unset, and adds an error otherwise; the handler of the
  second source file adds an error for every PATCH error and leaves the state as it was.
  When the error is not-found and \<open>isCreate\<close> is unset the two outcomes are different.
\<close>

theorem Update_variants_differ_on_not_found:
  assumes "Plan_Get env (UpdateRequest.Plan req) = (data, ds)"
    and "\<not> HasError (Append (Diagnostics resp) ds)"
    and "Timeouts_Update env (Timeouts data) (30 * Second) = (t, ds')"
    and "\<not> HasError (Append (Append (Diagnostics resp) ds) ds')"
    and "constructAssignmentFilter env data = Inr body"
    and "client r = Some c"
    and "Patch c (ValueString (ID data)) body = Inl err"
  shows "(IsNotFoundError err \<and> \<not> isCreate r \<longrightarrow>
            Update env r req resp =
              Returns (resp\<lparr>Response.State := State_RemoveResource env (Response.State resp),
                 Diagnostics := AddWarning (Append (Append (Diagnostics resp) ds) ds')
                   ''Resource Not Found''
                   (''The resource: '' @ ProviderTypeName r @ ''_'' @ TypeName r @ '' with ID ''
                      @ ValueString (ID data)
                      @ '' was not found and will be removed from the state.'')\<rparr>)
                [PatchCall (ValueString (ID data)) body]
            \<and> Update env r req resp \<noteq> Update_part_000 env r req resp)
       \<and> (\<not> (IsNotFoundError err \<and> \<not> isCreate r) \<longrightarrow>
            Update env r req resp =
              Returns (resp\<lparr>Diagnostics := AddError (Append (Append (Diagnostics resp) ds) ds')
                   ''Error reading assignment filter''
                   (''Could not update resource: '' @ ProviderTypeName r @ ''_'' @ TypeName r
                      @ '': '' @ Error err)\<rparr>)
                [PatchCall (ValueString (ID data)) body])
       \<and> Update_part_000 env r req resp =
            Returns (resp\<lparr>Diagnostics := AddError (Append (Append (Diagnostics resp) ds) ds')
                 ''Error updating assignment filter''
                 (''Could not update assignment filter: '' @ Error err)\<rparr>)
              [PatchCall (ValueString (ID data)) body]"
proof -
  let ?D = "Append (Append (Diagnostics resp) ds) ds'"
  have old: "Update_part_000 env r req resp =
            Returns (resp\<lparr>Diagnostics := AddError ?D
                 ''Error updating assignment filter''
                 (''Could not update assignment filter: '' @ Error err)\<rparr>)
              [PatchCall (ValueString (ID data)) body]"
    using assms by (simp add: Update_part_000_def Let_def)
  have hard: "\<not> (IsNotFoundError err \<and> \<not> isCreate r) \<Longrightarrow>
            Update env r req resp =
              Returns (resp\<lparr>Diagnostics := AddError ?D
                   ''Error reading assignment filter''
                   (''Could not update resource: '' @ ProviderTypeName r @ ''_'' @ TypeName r
                      @ '': '' @ Error err)\<rparr>)
                [PatchCall (ValueString (ID data)) body]"
    using assms by (auto simp add: Update_def Let_def)
  have gone: "IsNotFoundError err \<and> \<not> isCreate r \<Longrightarrow>
            Update env r req resp =
              Returns (resp\<lparr>Response.State := State_RemoveResource env (Response.State resp),
                 Diagnostics := AddWarning ?D
                   ''Resource Not Found''
                   (''The resource: '' @ ProviderTypeName r @ ''_'' @ TypeName r @ '' with ID ''
                      @ ValueString (ID data)
                      @ '' was not found and will be removed from the state.'')\<rparr>)
                [PatchCall (ValueString (ID data)) body]"
    using assms by (simp add: Update_def Let_def)
  have differ: "Update env r req resp \<noteq> Update_part_000 env r req resp"
    if nf: "IsNotFoundError err \<and> \<not> isCreate r"
  proof
    assume eq: "Update env r req resp = Update_part_000 env r req resp"
    have "AddWarning ?D ''Resource Not Found''
            (''The resource: '' @ ProviderTypeName r @ ''_'' @ TypeName r @ '' with ID ''
               @ ValueString (ID data)
               @ '' was not found and will be removed from the state.'')
          = AddError ?D ''Error updating assignment filter''
              (''Could not update assignment filter: '' @ Error err)"
      (is "?W = ?E")
    proof -
      from eq gone [OF nf] old
      have "Diagnostics (resp\<lparr>Response.State := State_RemoveResource env (Response.State resp),
                 Diagnostics := ?W\<rparr>) = Diagnostics (resp\<lparr>Diagnostics := ?E\<rparr>)"
        by simp
      then show ?thesis by simp
    qed
    then have "HasError ?W = HasError ?E" by simp
    with assms(4) show False
      by (simp only: HasError_AddError HasError_AddWarning)
  qed
  from old hard gone differ show ?thesis by blast
qed


theorem Update_variants_differ_on_not_found_witness:
  "IsNotFoundError (GraphError ''404 Not Found'' True)
   \<and> \<not> isCreate (example_resource example_client_not_found)
   \<and> Update example_env (example_resource example_client_not_found)
         \<lparr>UpdateRequest.Plan = Some example_state\<rparr>
         \<lparr>Response.State = Some example_state, Diagnostics = []\<rparr> =
       Returns
         \<lparr>Response.State = None,
          Diagnostics = [WarningDiagnostic ''Resource Not Found''
            ''The resource: microsoft365_graph_beta_device_and_app_management_assignment_filter with ID af-1 was not found and will be removed from the state.'']\<rparr>
         [PatchCall ''af-1'' \<lparr>filter_id = None, filter_displayName = ''corp laptops'',
                                filter_createdDateTime = []\<rparr>]
   \<and> Update_part_000 example_env (example_resource example_client_not_found)
         \<lparr>UpdateRequest.Plan = Some example_state\<rparr>
         \<lparr>Response.State = Some example_state, Diagnostics = []\<rparr> =
       Returns
         \<lparr>Response.State = Some example_state,
          Diagnostics = [ErrorDiagnostic ''Error updating assignment filter''
            ''Could not update assignment filter: 404 Not Found'']\<rparr>
         [PatchCall ''af-1'' \<lparr>filter_id = None, filter_displayName = ''corp laptops'',
                                filter_createdDateTime = []\<rparr>]
   \<and> Update example_env (example_resource example_client_not_found)
         \<lparr>UpdateRequest.Plan = Some example_state\<rparr>
         \<lparr>Response.State = Some example_state, Diagnostics = []\<rparr>
       \<noteq> Update_part_000 example_env (example_resource example_client_not_found)
         \<lparr>UpdateRequest.Plan = Some example_state\<rparr>
         \<lparr>Response.State = Some example_state, Diagnostics = []\<rparr>"
proof -
  let ?req = "\<lparr>UpdateRequest.Plan = Some example_state\<rparr>"
  let ?resp = "\<lparr>Response.State = Some example_state, Diagnostics = []\<rparr>"
  let ?body = "\<lparr>filter_id = None, filter_displayName = ''corp laptops'',
                 filter_createdDateTime = []\<rparr>"
  have h1: "Plan_Get example_env (UpdateRequest.Plan ?req) = (example_state, [])"
    by (simp add: example_defs)
  have h2: "\<not> HasError (Append (Diagnostics ?resp) [])" by simp
  have h3: "Timeouts_Update example_env (Timeouts example_state) (30 * Second) = (30 * Second, [])"
    by (simp add: example_defs)
  have h4: "\<not> HasError (Append (Append (Diagnostics ?resp) []) [])" by simp
  have h5: "constructAssignmentFilter example_env example_state = Inr ?body"
    by (simp add: example_defs)
  have h6: "client (example_resource example_client_not_found) = Some example_client_not_found"
    by (simp add: example_defs)
  have h7: "Patch example_client_not_found (ValueString (ID example_state)) ?body
              = Inl (GraphError ''404 Not Found'' True)"
    by (simp add: example_defs)
  show ?thesis
    using Update_variants_differ_on_not_found [OF h1 h2 h3 h4 h5 h6 h7]
    by (simp add: example_defs)
qed

subsection \<open>Delete\<close>

text \<open>
  Claim C8: when the DELETE call returns an error, whatever its classification, Delete adds
  an error diagnostic and does not remove the resource from the state; when the call
  succeeds, Delete removes the resource from the state. Both source files agree.
\<close>

theorem Delete_error_keeps_state_success_removes:
  assumes "State_Get env (DeleteRequest.State req) = (data, ds)"
    and "\<not> HasError (Append (Diagnostics resp) ds)"
    and "Timeouts_Delete env (Timeouts data) (30 * Second) = (t, ds')"
    and "\<not> HasError (Append (Append (Diagnostics resp) ds) ds')"
    and "client r = Some c"
  shows "(\<forall>err. GraphServiceClient.Delete c (ValueString (ID data)) = Some err \<longrightarrow>
            Delete env r req resp =
              Returns (resp\<lparr>Diagnostics := AddError (Append (Append (Diagnostics resp) ds) ds')
                   (''Client error when deleting '' @ ProviderTypeName r @ ''_'' @ TypeName r)
                   (Error err)\<rparr>)
                [DeleteCall (ValueString (ID data))]
            \<and> Delete_part_000 env r req resp = Delete env r req resp
            \<and> HasError (AddError (Append (Append (Diagnostics resp) ds) ds')
                   (''Client error when deleting '' @ ProviderTypeName r @ ''_'' @ TypeName r)
                   (Error err)))
       \<and> (GraphServiceClient.Delete c (ValueString (ID data)) = None \<longrightarrow>
            Delete env r req resp =
              Returns (resp\<lparr>Response.State := State_RemoveResource env (Response.State resp),
                            Diagnostics := Append (Append (Diagnostics resp) ds) ds'\<rparr>)
                [DeleteCall (ValueString (ID data))]
            \<and> Delete_part_000 env r req resp = Delete env r req resp)"
  using assms by (simp add: Delete_def Delete_part_000_def Let_def HasError_AddError)

theorem Delete_error_keeps_state_success_removes_witness:
  "GraphServiceClient.Delete example_client_not_found (ValueString (ID example_state))
      = Some (GraphError ''404 Not Found'' True)
   \<and> Delete example_env (example_resource example_client_not_found)
         \<lparr>DeleteRequest.State = Some example_state\<rparr>
         \<lparr>Response.State = Some example_state, Diagnostics = []\<rparr> =
       Returns
         \<lparr>Response.State = Some example_state,
          Diagnostics = [ErrorDiagnostic
            ''Client error when deleting microsoft365_graph_beta_device_and_app_management_assignment_filter''
            ''404 Not Found'']\<rparr>
         [DeleteCall ''af-1'']
   \<and> GraphServiceClient.Delete example_client (ValueString (ID example_state)) = None
   \<and> Delete example_env (example_resource example_client)
         \<lparr>DeleteRequest.State = Some example_state\<rparr>
         \<lparr>Response.State = Some example_state, Diagnostics = []\<rparr> =
       Returns \<lparr>Response.State = None, Diagnostics = []\<rparr> [DeleteCall ''af-1'']"
proof -
  let ?req = "\<lparr>DeleteRequest.State = Some example_state\<rparr>"
  let ?resp = "\<lparr>Response.State = Some example_state, Diagnostics = []\<rparr>"
  have h1: "State_Get example_env (DeleteRequest.State ?req) = (example_state, [])"
    by (simp add: example_defs)
  have h2: "\<not> HasError (Append (Diagnostics ?resp) [])" by simp
  have h3: "Timeouts_Delete example_env (Timeouts example_state) (30 * Second) = (30 * Second, [])"
    by (simp add: example_defs)
  have h4: "\<not> HasError (Append (Append (Diagnostics ?resp) []) [])" by simp
  have g: "client (example_resource example_client_not_found) = Some example_client_not_found"
    by (simp add: example_defs)
  have k: "client (example_resource example_client) = Some example_client"
    by (simp add: example_defs)
  show ?thesis
    using Delete_error_keeps_state_success_removes [OF h1 h2 h3 h4 g]
      Delete_error_keeps_state_success_removes [OF h1 h2 h3 h4 k]
    by (simp add: example_defs)
qed

subsection \<open>Read without an identifier\<close>

text \<open>
  Claim C10: when the decoded state has a null or empty identifier, the Read handler of
  crud.go returns with a warning, issues no Graph call, leaves the state as it was and adds
  no error.
\<close>

theorem Read_empty_id_returns_early:
  assumes "State_Get env (ReadRequest.State req) = (stored, ds)"
    and "\<not> HasError (Append (Diagnostics resp) ds)"
    and "IsNull (ID stored) \<or> ValueString (ID stored) = []"
  shows "Read env r req resp =
           Returns (resp\<lparr>Diagnostics := AddWarning (Append (Diagnostics resp) ds)
               ''Unable to read assignment filter''
               ''Assignment filter ID is empty or null. Unable to read assignment filter.''\<rparr>) []
       \<and> \<not> HasError (AddWarning (Append (Diagnostics resp) ds)
               ''Unable to read assignment filter''
               ''Assignment filter ID is empty or null. Unable to read assignment filter.'')
       \<and> WarningDiagnostic ''Unable to read assignment filter''
               ''Assignment filter ID is empty or null. Unable to read assignment filter.''
           \<in> set (AddWarning (Append (Diagnostics resp) ds)
               ''Unable to read assignment filter''
               ''Assignment filter ID is empty or null. Unable to read assignment filter.'')"
  using assms by (auto simp add: Read_def Let_def HasError_AddWarning set_AddWarning)

theorem Read_empty_id_returns_early_witness:
  "IsNull (ID (example_state\<lparr>ID := Null\<rparr>))
   \<and> Read example_env (example_resource example_client)
         \<lparr>ReadRequest.State = Some (example_state\<lparr>ID := Null\<rparr>)\<rparr>
         \<lparr>Response.State = Some (example_state\<lparr>ID := Null\<rparr>), Diagnostics = []\<rparr> =
       Returns
         \<lparr>Response.State = Some (example_state\<lparr>ID := Null\<rparr>),
          Diagnostics = [WarningDiagnostic ''Unable to read assignment filter''
            ''Assignment filter ID is empty or null. Unable to read assignment filter.'']\<rparr> []
   \<and> ValueString (ID (example_state\<lparr>ID := Known []\<rparr>)) = []
   \<and> Read example_env (example_resource example_client)
         \<lparr>ReadRequest.State = Some (example_state\<lparr>ID := Known []\<rparr>)\<rparr>
         \<lparr>Response.State = Some (example_state\<lparr>ID := Known []\<rparr>), Diagnostics = []\<rparr> =
       Returns
         \<lparr>Response.State = Some (example_state\<lparr>ID := Known []\<rparr>),
          Diagnostics = [WarningDiagnostic ''Unable to read assignment filter''
            ''Assignment filter ID is empty or null. Unable to read assignment filter.'']\<rparr> []"
proof -
  let ?n = "example_state\<lparr>ID := Null\<rparr>"
  let ?e = "example_state\<lparr>ID := Known []\<rparr>"
  have n1: "State_Get example_env (ReadRequest.State \<lparr>ReadRequest.State = Some ?n\<rparr>) = (?n, [])"
    by (simp add: example_defs)
  have e1: "State_Get example_env (ReadRequest.State \<lparr>ReadRequest.State = Some ?e\<rparr>) = (?e, [])"
    by (simp add: example_defs)
  have n2: "\<not> HasError (Append (Diagnostics \<lparr>Response.State = Some ?n, Diagnostics = []\<rparr>) [])"
    by simp
  have e2: "\<not> HasError (Append (Diagnostics \<lparr>Response.State = Some ?e, Diagnostics = []\<rparr>) [])"
    by simp
  have n3: "IsNull (ID ?n) \<or> ValueString (ID ?n) = []" by simp
  have e3: "IsNull (ID ?e) \<or> ValueString (ID ?e) = []" by simp
  show ?thesis
    using Read_empty_id_returns_early [OF n1 n2 n3, of "example_resource example_client"]
      Read_empty_id_returns_early [OF e1 e2 e3, of "example_resource example_client"]
    by (simp add: AddWarning_def)
qed

section \<open>Properties of the constructor\<close>

subsection \<open>The loops and the early returns\<close>


lemma fillStrings_eq:
  "i + length xs \<le> length out \<Longrightarrow>
   fillStrings xs i out = take i out @ map ValueString xs @ drop (i + length xs) out"
proof (induction xs arbitrary: i out)
  case Nil
  then show ?case by simp
next
  case (Cons x xs)
  from Cons.prems have i: "i < length out" by simp
  have "fillStrings (x # xs) i out = fillStrings xs (Suc i) (out[i := ValueString x])" by simp
  also have "\<dots> = take (Suc i) (out[i := ValueString x]) @ map ValueString xs
                   @ drop (Suc i + length xs) (out[i := ValueString x])"
    using Cons.prems by (intro Cons.IH) simp
  also have "take (Suc i) (out[i := ValueString x]) = take i out @ [ValueString x]"
    using i by (simp add: take_Suc_conv_app_nth)
  also have "drop (Suc i + length xs) (out[i := ValueString x]) = drop (i + length (x # xs)) out"
    by simp
  finally show ?case by simp
qed

lemma valueStrings_map: "valueStrings xs = map ValueString xs"
  by (simp add: valueStrings_def fillStrings_eq)

lemma fillEnums_Ok:
  "fillEnums parse prefix xs i out = Ok ys \<Longrightarrow> i + length xs \<le> length out \<Longrightarrow>
   \<exists>vs. ys = take i out @ vs @ drop (i + length xs) out
        \<and> list_all2 (\<lambda>x v. parse (ValueString x) = Inr (Some v)) xs vs"
proof (induction xs arbitrary: i out)
  case Nil
  then show ?case by simp
next
  case (Cons x xs)
  from Cons.prems(2) have i: "i < length out" by simp
  from Cons.prems(1) obtain v where v: "parse (ValueString x) = Inr (Some v)"
    and rest: "fillEnums parse prefix xs (Suc i) (out[i := v]) = Ok ys"
    by (auto split: sum.splits option.splits)
  from Cons.IH [OF rest] Cons.prems(2) obtain vs where
    ys: "ys = take (Suc i) (out[i := v]) @ vs @ drop (Suc i + length xs) (out[i := v])"
    and all: "list_all2 (\<lambda>x v. parse (ValueString x) = Inr (Some v)) xs vs"
    by auto
  have "take (Suc i) (out[i := v]) = take i out @ [v]"
    using i by (simp add: take_Suc_conv_app_nth)
  with ys have "ys = take i out @ (v # vs) @ drop (i + length (x # xs)) out" by simp
  with v all show ?case by (intro exI [of _ "v # vs"]) simp
qed

lemma parseEnums_Ok:
  assumes "parseEnums parse prefix xs = Ok ys"
  shows "list_all2 (\<lambda>x v. parse (ValueString x) = Inr (Some v)) xs ys"
proof -
  from assms have "fillEnums parse prefix xs 0 (replicate (length xs) 0) = Ok ys"
    by (simp add: parseEnums_def)
  from fillEnums_Ok [OF this] obtain vs where
    "ys = vs @ drop (length xs) (replicate (length xs) 0)"
    "list_all2 (\<lambda>x v. parse (ValueString x) = Inr (Some v)) xs vs"
    by auto
  then show ?thesis by simp
qed

lemma fillEnums_Err:
  "fillEnums parse prefix xs i out = Err m \<Longrightarrow>
   \<exists>x\<in>set xs. \<exists>e. parse (ValueString x) = Inl e \<and> m = prefix @ e"
  by (induction xs arbitrary: i out) (auto split: sum.splits option.splits)

lemma parseEnums_Err:
  "parseEnums parse prefix xs = Err m \<Longrightarrow>
   \<exists>x\<in>set xs. \<exists>e. parse (ValueString x) = Inl e \<and> m = prefix @ e"
  unfolding parseEnums_def by (rule fillEnums_Err)

lemma andThen_Ok_iff: "andThen r f = Ok y \<longleftrightarrow> (\<exists>x. r = Ok x \<and> f x = Ok y)"
  by (cases r) auto

lemma andThen_Err_iff:
  "andThen r f = Err m \<longleftrightarrow> r = Err m \<or> (\<exists>x. r = Ok x \<and> f x = Err m)"
  by (cases r) auto

lemma wrapErr_Ok_iff: "wrapErr prefix r = Ok x \<longleftrightarrow> r = Ok x"
  by (cases r) auto

lemma wrapErr_Err_iff: "wrapErr prefix r = Err m \<longleftrightarrow> (\<exists>e. r = Err e \<and> m = prefix @ e)"
  by (cases r) auto

lemma parsed_Ok_iff: "parsed prefix s = Ok v \<longleftrightarrow> s = Inr v"
  by (cases s) auto

lemma parsed_Err_iff: "parsed prefix s = Err m \<longleftrightarrow> (\<exists>e. s = Inl e \<and> m = prefix @ e)"
  by (cases s) auto

lemma constructApplications_lists:
  assumes "constructApplications (Some a) = Ok (Some r)"
  shows "includeApplications r = spec_strings (IncludeApplications a)
       \<and> excludeApplications r = spec_strings (ExcludeApplications a)
       \<and> includeUserActions r = spec_strings (IncludeUserActions a)"
  using assms
  by (auto simp add: constructApplications_def Let_def NewConditionalAccessApplications_def
      valueStrings_map spec_strings_def)


lemma fillEnums_all2:
  "list_all2 (\<lambda>x v. parse (ValueString x) = Inr (Some v)) xs vs \<Longrightarrow>
   i + length xs \<le> length out \<Longrightarrow>
   fillEnums parse prefix xs i out = Ok (take i out @ vs @ drop (i + length xs) out)"
proof (induction xs vs arbitrary: i out rule: list_all2_induct)
  case Nil
  then show ?case by simp
next
  case (Cons x xs v vs)
  from Cons.prems have i: "i < length out" by simp
  have "fillEnums parse prefix (x # xs) i out = fillEnums parse prefix xs (Suc i) (out[i := v])"
    using Cons.hyps(1) by simp
  also have "\<dots> = Ok (take (Suc i) (out[i := v]) @ vs @ drop (Suc i + length xs) (out[i := v]))"
    using Cons.prems by (intro Cons.IH) simp
  also have "take (Suc i) (out[i := v]) = take i out @ [v]"
    using i by (simp add: take_Suc_conv_app_nth)
  finally show ?case by simp
qed

lemma parseEnums_Ok_iff:
  "parseEnums parse prefix xs = Ok ys \<longleftrightarrow>
   list_all2 (\<lambda>x v. parse (ValueString x) = Inr (Some v)) xs ys"
proof
  assume "parseEnums parse prefix xs = Ok ys"
  then show "list_all2 (\<lambda>x v. parse (ValueString x) = Inr (Some v)) xs ys"
    by (rule parseEnums_Ok)
next
  assume all: "list_all2 (\<lambda>x v. parse (ValueString x) = Inr (Some v)) xs ys"
  then have len: "length ys = length xs" by (simp add: list_all2_lengthD)
  from fillEnums_all2 [OF all, of 0 "replicate (length xs) 0" prefix]
  show "parseEnums parse prefix xs = Ok ys"
    by (simp add: parseEnums_def len)
qed

lemma guarded_step:
  "(if c then andThen r (\<lambda>v. Ok (g v)) else Ok x) = Ok y \<Longrightarrow>
   \<exists>v. (c \<longrightarrow> r = Ok v) \<and> sel y = (if c then sel (g v) else sel x)"
  by (cases r) (auto split: if_split_asm)

lemma if_Pair: "(if c then (a, b) else (a', b')) = (if c then a else a', if c then b else b')"
  by simp

lemma spec_enums_simps:
  "spec_enums parse xs None \<longleftrightarrow> xs = []"
  "spec_enums parse xs (Some ys) \<longleftrightarrow>
     xs \<noteq> [] \<and> list_all2 (\<lambda>x v. parse (ValueString x) = Inr (Some v)) xs ys"
  by (simp_all add: spec_enums_def)

lemmas Ok_iffs = andThen_Ok_iff wrapErr_Ok_iff parsed_Ok_iff parseEnums_Ok_iff

lemma constructConditionalAccessExternalTenants_lists:
  assumes "constructConditionalAccessExternalTenants (Some t) = Ok (Some r)"
  shows "tenantIds r = spec_strings (TenantIds t)"
  using assms
  by (auto simp add: constructConditionalAccessExternalTenants_def Let_def
      NewConditionalAccessExternalTenants_def valueStrings_map spec_strings_def)

lemma constructClientApplications_lists:
  assumes "constructClientApplications (Some a) = Ok (Some r)"
  shows "includeServicePrincipals r = spec_strings (IncludeServicePrincipals a)
       \<and> excludeServicePrincipals r = spec_strings (ExcludeServicePrincipals a)"
  using assms
  by (auto simp add: constructClientApplications_def Let_def
      NewConditionalAccessClientApplications_def valueStrings_map spec_strings_def)

lemma constructAuthenticationStrength_lists:
  assumes "constructAuthenticationStrength (Some a) = Ok (Some r)"
  shows "allowedCombinations r = spec_strings (AllowedCombinations a)"
  using assms
  by (auto simp add: constructAuthenticationStrength_def Let_def
      NewAuthenticationStrengthPolicy_def valueStrings_map spec_strings_def)

lemma constructGuestsOrExternalUsers_Ok:
  assumes "constructGuestsOrExternalUsers ext (Some g) = Ok (Some r)"
  shows "(if IsNull (GuestOrExternalUserTypes g) then guestOrExternalUserTypes r = None
          else ParseConditionalAccessGuestOrExternalUserTypes ext
                 (ValueString (GuestOrExternalUserTypes g)) = Inr (guestOrExternalUserTypes r))
       \<and> constructConditionalAccessExternalTenants (ExternalTenants g) = Ok (externalTenants r)"
  using assms
  apply (clarsimp simp add: constructGuestsOrExternalUsers_def andThen_Ok_iff)
  apply (drule guarded_step [where sel = "\<lambda>y. (guestOrExternalUserTypes y, externalTenants y)"])+
  apply (clarsimp simp add: NewConditionalAccessGuestsOrExternalUsers_def if_Pair Ok_iffs
      constructConditionalAccessExternalTenants_def cong: if_cong)
  done

lemma constructUsers_Ok:
  assumes "constructUsers ext (Some u) = Ok (Some r)"
  shows "includeUsers r = spec_strings (IncludeUsers u)
       \<and> excludeUsers r = spec_strings (ExcludeUsers u)
       \<and> includeGroups r = spec_strings (IncludeGroups u)
       \<and> excludeGroups r = spec_strings (ExcludeGroups u)
       \<and> includeRoles r = spec_strings (IncludeRoles u)
       \<and> excludeRoles r = spec_strings (ExcludeRoles u)
       \<and> constructGuestsOrExternalUsers ext (IncludeGuestsOrExternalUsers u)
           = Ok (includeGuestsOrExternalUsers r)
       \<and> constructGuestsOrExternalUsers ext (ExcludeGuestsOrExternalUsers u)
           = Ok (excludeGuestsOrExternalUsers r)"
  using assms
  apply (clarsimp simp add: constructUsers_def Let_def andThen_Ok_iff
      simp del: length_greater_0_conv)
  apply (drule guarded_step [where sel = "\<lambda>y. (includeUsers y, excludeUsers y,
     includeGroups y, excludeGroups y, includeRoles y, excludeRoles y,
     includeGuestsOrExternalUsers y, excludeGuestsOrExternalUsers y)"])+
  apply (clarsimp simp add: NewConditionalAccessUsers_def if_Pair valueStrings_map
      spec_strings_def Ok_iffs
      if_distrib [of includeUsers] if_distrib [of excludeUsers] if_distrib [of includeGroups]
      if_distrib [of excludeGroups] if_distrib [of includeRoles] if_distrib [of excludeRoles]
      if_distrib [of includeGuestsOrExternalUsers] if_distrib [of excludeGuestsOrExternalUsers]
      constructGuestsOrExternalUsers_def
      cong: if_cong)
  done

lemma constructGrantControls_Ok:
  assumes "constructGrantControls ext (Some g) = Ok (Some r)"
  shows "(if IsNull (Operator g) then operator r = None
          else ParseConditionalAccessGrantControlOperator ext (ValueString (Operator g))
                 = Inr (operator r))
       \<and> spec_enums (ParseConditionalAccessGrantControl ext) (BuiltInControls g)
            (builtInControls r)
       \<and> customAuthenticationFactors r = spec_strings (CustomAuthenticationFactors g)
       \<and> termsOfUse r = spec_strings (TermsOfUse g)
       \<and> constructAuthenticationStrength (AuthenticationStrength g)
           = Ok (authenticationStrength r)"
  using assms
  apply (clarsimp simp add: constructGrantControls_def Let_def andThen_Ok_iff
      simp del: length_greater_0_conv)
  apply (drule guarded_step [where sel = "\<lambda>y. (operator y, builtInControls y,
     customAuthenticationFactors y, termsOfUse y, authenticationStrength y)"])+
  apply (clarsimp simp add: NewConditionalAccessGrantControls_def if_Pair valueStrings_map
      spec_strings_def spec_enums_simps Ok_iffs
      if_distrib [of operator] if_distrib [of builtInControls]
      if_distrib [of customAuthenticationFactors] if_distrib [of termsOfUse]
      if_distrib [of authenticationStrength]
      constructAuthenticationStrength_def
      cong: if_cong)
  done

lemma construct_None [simp]:
  "constructApplications None = Ok None"
  "constructConditionalAccessExternalTenants None = Ok None"
  "constructGuestsOrExternalUsers ext None = Ok None"
  "constructUsers ext None = Ok None"
  "constructClientApplications None = Ok None"
  "constructConditions ext None = Ok None"
  "constructAuthenticationStrength None = Ok None"
  "constructGrantControls ext None = Ok None"
  "constructSessionControls ext None = Ok None"
  by (simp_all add: constructApplications_def constructConditionalAccessExternalTenants_def
      constructGuestsOrExternalUsers_def constructUsers_def constructClientApplications_def
      constructConditions_def constructAuthenticationStrength_def constructGrantControls_def
      constructSessionControls_def)


lemma constructConditions_Ok:
  assumes "constructConditions ext (Some d) = Ok (Some r)"
  shows "constructApplications (Applications d) = Ok (applications r)
       \<and> (if AuthenticationFlows d = None then authenticationFlows r = None
          else constructAuthenticationFlows ext (AuthenticationFlows d)
                 = Ok (authenticationFlows r))
       \<and> constructClientApplications (ClientApplications d) = Ok (clientApplications r)
       \<and> spec_enums (ParseConditionalAccessClientApp ext) (ClientAppTypes d) (clientAppTypes r)
       \<and> (if Devices d = None then devices r = None
          else constructDevices ext (Devices d) = Ok (devices r))
       \<and> (if DeviceStates d = None then deviceStates r = None
          else constructDeviceStates ext (DeviceStates d) = Ok (deviceStates r))
       \<and> (if IsNull (InsiderRiskLevels d) then insiderRiskLevels r = None
          else ParseConditionalAccessInsiderRiskLevels ext (ValueString (InsiderRiskLevels d))
                 = Inr (insiderRiskLevels r))
       \<and> (if Locations d = None then locations r = None
          else constructLocations ext (Locations d) = Ok (locations r))
       \<and> (if Platforms d = None then platforms r = None
          else constructPlatforms ext (Platforms d) = Ok (platforms r))
       \<and> spec_enums (ParseRiskLevel ext) (ServicePrincipalRiskLevels d)
            (servicePrincipalRiskLevels r)
       \<and> spec_enums (ParseRiskLevel ext) (SignInRiskLevels d) (signInRiskLevels r)
       \<and> spec_enums (ParseRiskLevel ext) (UserRiskLevels d) (userRiskLevels r)
       \<and> constructUsers ext (Users d) = Ok (users r)"
  using assms
  apply (clarsimp simp add: constructConditions_def andThen_Ok_iff simp del: length_greater_0_conv)
  apply (drule guarded_step [where sel = "\<lambda>y. (applications y, authenticationFlows y,
     clientApplications y, clientAppTypes y, devices y, deviceStates y, insiderRiskLevels y,
     locations y, platforms y, servicePrincipalRiskLevels y, signInRiskLevels y,
     userRiskLevels y, users y)"])+
  apply (clarsimp simp add: NewConditionalAccessConditionSet_def if_Pair spec_enums_simps Ok_iffs
      cong: if_cong)
  done


lemma guarded_iff:
  "(if c then andThen r (\<lambda>v. Ok (g v)) else Ok x) = Ok y \<longleftrightarrow>
   (if c then \<exists>v. r = Ok v \<and> y = g v else y = x)"
  by (cases r) auto

lemma case_step:
  "(case opt of None \<Rightarrow> Ok x | Some m \<Rightarrow> andThen (r m) (\<lambda>v. Ok (g v))) = Ok y \<Longrightarrow>
   \<exists>v. (\<forall>m. opt = Some m \<longrightarrow> r m = Ok v)
      \<and> sel y = (if opt = None then sel x else sel (g v))"
  by (cases opt) (auto simp add: andThen_Ok_iff)

lemma continuousAccessEvaluationSessionControl_Ok:
  assumes "continuousAccessEvaluationSessionControl ext e = Ok c"
  shows "if IsNull (ContinuousAccessEvaluationModel.Mode e)
         then ContinuousAccessEvaluationSessionControl.mode c = None
         else ParseContinuousAccessEvaluationMode ext
                (ValueString (ContinuousAccessEvaluationModel.Mode e))
              = Inr (ContinuousAccessEvaluationSessionControl.mode c)"
  using assms
  by (auto simp add: continuousAccessEvaluationSessionControl_def Ok_iffs
      NewContinuousAccessEvaluationSessionControl_def split: if_split_asm)

lemma persistentBrowserSessionControl_Ok:
  assumes "persistentBrowserSessionControl ext b = Ok p"
  shows "PersistentBrowserSessionControl.isEnabled p
           = Some (ValueBool (PersistentBrowserModel.IsEnabled b))
       \<and> (if IsNull (PersistentBrowserModel.Mode b)
           then PersistentBrowserSessionControl.mode p = None
           else ParsePersistentBrowserSessionMode ext
                  (ValueString (PersistentBrowserModel.Mode b))
                = Inr (PersistentBrowserSessionControl.mode p))"
  using assms
  by (auto simp add: persistentBrowserSessionControl_def Ok_iffs Let_def
      NewPersistentBrowserSessionControl_def split: if_split_asm)

lemma signInFrequencySessionControl_Ok:
  assumes "signInFrequencySessionControl ext q = Ok f"
  shows "SignInFrequencySessionControl.isEnabled f
           = Some (ValueBool (SignInFrequencyModel.IsEnabled q))
       \<and> (if IsNull (Type q) then typeEscaped f = None
           else ParseSigninFrequencyType ext (ValueString (Type q)) = Inr (typeEscaped f))
       \<and> signInValue f = (if IsNull (Value q) then None else Some (ValueInt32 (Value q)))
       \<and> (if IsNull (FrequencyInterval q) then frequencyInterval f = None
           else ParseSignInFrequencyInterval ext (ValueString (FrequencyInterval q))
                = Inr (frequencyInterval f))
       \<and> (if IsNull (AuthenticationType q) then authenticationType f = None
           else ParseSignInFrequencyAuthenticationType ext (ValueString (AuthenticationType q))
                = Inr (authenticationType f))"
  using assms
  apply (clarsimp simp add: signInFrequencySessionControl_def Let_def andThen_Ok_iff)
  apply (drule guarded_step [where sel = "\<lambda>y. (SignInFrequencySessionControl.isEnabled y,
      typeEscaped y, signInValue y, frequencyInterval y, authenticationType y)"])+
  apply (clarsimp simp add: NewSignInFrequencySessionControl_def if_Pair Ok_iffs
      if_distrib [of SignInFrequencySessionControl.isEnabled] if_distrib [of typeEscaped]
      if_distrib [of signInValue] if_distrib [of frequencyInterval]
      if_distrib [of authenticationType]
      cong: if_cong)
  done

lemma constructSessionControls_Ok:
  assumes "constructSessionControls ext (Some s) = Ok (Some r)"
  shows "disableResilienceDefaults r = Some (ValueBool (DisableResilienceDefaults s))
       \<and> applicationEnforcedRestrictions r =
           map_option applicationEnforcedRestrictionsSessionControl
             (ApplicationEnforcedRestrictions s)
       \<and> secureSignInSession r =
           map_option secureSignInSessionControl (SecureSignInSession s)
       \<and> map_option (continuousAccessEvaluationSessionControl ext) (ContinuousAccessEvaluation s)
           = map_option Ok (continuousAccessEvaluation r)
       \<and> map_option (persistentBrowserSessionControl ext) (PersistentBrowser s)
           = map_option Ok (persistentBrowser r)
       \<and> map_option (signInFrequencySessionControl ext) (SignInFrequency s)
           = map_option Ok (signInFrequency r)"
proof (cases "ApplicationEnforcedRestrictions s"; cases "SecureSignInSession s")
  fix a b
  show "ApplicationEnforcedRestrictions s = None \<Longrightarrow> SecureSignInSession s = None \<Longrightarrow> ?thesis"
    using assms
    apply (clarsimp simp add: constructSessionControls_def Let_def andThen_Ok_iff)
    apply (drule case_step [where sel = "\<lambda>y. (applicationEnforcedRestrictions y,
      continuousAccessEvaluation y, persistentBrowser y, signInFrequency y,
      secureSignInSession y, disableResilienceDefaults y)"])+
    apply (clarsimp simp add: if_Pair NewConditionalAccessSessionControls_def cong: if_cong)
    apply (auto split: option.split)
    done
  show "ApplicationEnforcedRestrictions s = None \<Longrightarrow> SecureSignInSession s = Some b \<Longrightarrow> ?thesis"
    using assms
    apply (clarsimp simp add: constructSessionControls_def Let_def andThen_Ok_iff)
    apply (drule case_step [where sel = "\<lambda>y. (applicationEnforcedRestrictions y,
      continuousAccessEvaluation y, persistentBrowser y, signInFrequency y,
      secureSignInSession y, disableResilienceDefaults y)"])+
    apply (clarsimp simp add: if_Pair NewConditionalAccessSessionControls_def cong: if_cong)
    apply (auto split: option.split)
    done
  show "ApplicationEnforcedRestrictions s = Some a \<Longrightarrow> SecureSignInSession s = None \<Longrightarrow> ?thesis"
    using assms
    apply (clarsimp simp add: constructSessionControls_def Let_def andThen_Ok_iff)
    apply (drule case_step [where sel = "\<lambda>y. (applicationEnforcedRestrictions y,
      continuousAccessEvaluation y, persistentBrowser y, signInFrequency y,
      secureSignInSession y, disableResilienceDefaults y)"])+
    apply (clarsimp simp add: if_Pair NewConditionalAccessSessionControls_def cong: if_cong)
    apply (auto split: option.split)
    done
  show "ApplicationEnforcedRestrictions s = Some a \<Longrightarrow> SecureSignInSession s = Some b \<Longrightarrow> ?thesis"
    using assms
    apply (clarsimp simp add: constructSessionControls_def Let_def andThen_Ok_iff)
    apply (drule case_step [where sel = "\<lambda>y. (applicationEnforcedRestrictions y,
      continuousAccessEvaluation y, persistentBrowser y, signInFrequency y,
      secureSignInSession y, disableResilienceDefaults y)"])+
    apply (clarsimp simp add: if_Pair NewConditionalAccessSessionControls_def cong: if_cong)
    apply (auto split: option.split)
    done
qed

end
